theory Spec2Isabelle
  imports Complex_Main
begin

section \<open>Slides to scene graph: the conversion pipeline\<close>

text \<open>
  A shallow embedding of the plugin's main module (the TypeScript variant with the
  fit-to-canvas scale, functions \<open>importPresentation\<close> to \<open>loadFont\<close>), together with
  \<open>createTextForShape\<close> of the compiled variant, whose steps come in another order, and
  the \<open>loadFont\<close> it calls (both suffixed \<open>_js\<close>).

  Conventions of the model.
  \<^item> A JavaScript \<open>number\<close> is a \<open>real\<close>: infinities and NaN are not modelled, and the
    operations are exact, except in the definitions suffixed \<open>_double\<close>, which round every
    operation on a position as the source's doubles do.
  \<^item> A JavaScript string is a \<open>string\<close> whose characters are read as code units
    below 256; \<open>length\<close> is the source's \<open>.length\<close> on such strings.
  \<^item> An optional field (\<open>f?: T\<close>, or one the source tests for presence) is a \<open>T option\<close>.
  \<^item> The host application is a record of functions: the calls that may throw return an
    answer saying so; the node constructors and setters of the host are total.
  \<^item> A thrown error is the \<open>Inl\<close> of a sum, paired with the state reached when it was
    thrown, since nodes appended before a throw stay appended.
\<close>

subsection \<open>Strings\<close>

definition toLower :: "char \<Rightarrow> char" where
  "toLower c =
     (case map_of (zip ''ABCDEFGHIJKLMNOPQRSTUVWXYZ'' ''abcdefghijklmnopqrstuvwxyz'') c of
        Some l \<Rightarrow> l
      | None \<Rightarrow> c)"

fun startsWith :: "string \<Rightarrow> string \<Rightarrow> bool" where
  "startsWith s [] = True"
| "startsWith [] (p # ps) = False"
| "startsWith (c # cs) (p # ps) = (c = p \<and> startsWith cs ps)"

fun includesStr :: "string \<Rightarrow> string \<Rightarrow> bool" where
  "includesStr [] p = (p = [])"
| "includesStr (c # cs) p = (startsWith (c # cs) p \<or> includesStr cs p)"

text \<open>
  \<open>/p1|p2|.../i.test(s)\<close> for literal lower-case alternatives: some alternative occurs
  in \<open>s\<close>, letters compared without case. Only the letters A to Z fold onto the
  pattern's letters.
\<close>

definition regexTestCI :: "string list \<Rightarrow> string \<Rightarrow> bool" where
  "regexTestCI alts s = list_ex (includesStr (map toLower s)) alts"

text \<open>The white space and line terminators that \<open>String.prototype.trim\<close> strips, below 256.\<close>

definition isWhiteSpace :: "char \<Rightarrow> bool" where
  "isWhiteSpace c = ((of_char c :: nat) \<in> {9, 10, 11, 12, 13, 32, 160})"

definition trim :: "string \<Rightarrow> string" where
  "trim s = rev (dropWhile isWhiteSpace (rev (dropWhile isWhiteSpace s)))"

subsection \<open>Fonts\<close>

text \<open>
  The value of the \<open>family\<close> field of a font name: a name, or, where the fallback table
  was indexed by the name of a member that every object inherits, that member (a function
  or an object, not a string).
\<close>

datatype family_value = Named string | Inherited string

record FontName =
  family :: family_value
  style :: string

datatype error =
    FontLoadError FontName
  | InvalidBase64Data
  | Base64DecodeError
  | CreateImageError

text \<open>
  The host. \<open>loadFontOk h k f\<close> is the answer of \<open>figma.loadFontAsync(f)\<close> when it is
  the \<open>k\<close>-th font load made since the start (counted from 0): the host may answer
  differently at different times. \<open>base64Decode\<close> and \<open>imageHash\<close> (\<open>figma.createImage\<close>,
  which gives the image its hash) are \<open>None\<close> where the host call throws.
  \<open>newNode k\<close> gives the host's defaults for the node that \<open>figma.createRectangle()\<close>,
  \<open>createEllipse()\<close>, \<open>createText()\<close>, \<open>createLine()\<close> or \<open>createFrame()\<close> returns;
  the node is of the kind asked for. \<open>inheritedMember s\<close> says that the objects of the
  host's engine inherit a member named \<open>s\<close> whose value counts as true (as \<open>constructor\<close>
  and \<open>toString\<close> do).
\<close>

record ColorRGB =
  red :: real
  green :: real
  blue :: real

datatype node_kind = RECTANGLE | ELLIPSE | TEXT | LINE | FRAME

datatype paint = SOLID ColorRGB | IMAGE string string

datatype range_op =
    SetRangeFontName nat nat FontName
  | SetRangeFontSize nat nat real
  | SetRangeFills nat nat "paint list"
  | SetRangeTextDecoration nat nat string

record props =
  kind :: node_kind
  name :: string
  nodeX :: real
  nodeY :: real
  nodeWidth :: real
  nodeHeight :: real
  fills :: "paint list"
  strokes :: "paint list"
  nodeStrokeWeight :: real
  nodeRotation :: real
  cornerRadius :: real
  nodeFontName :: "FontName option"
  characters :: string
  nodeFontSize :: real
  ranges :: "range_op list"
  textAlignHorizontal :: string
  textAlignVertical :: string
  textAutoResize :: string

datatype node = Node props "node list"

record host =
  loadFontOk :: "nat \<Rightarrow> FontName \<Rightarrow> bool"
  base64Decode :: "string \<Rightarrow> nat list option"
  imageHash :: "nat list \<Rightarrow> string option"
  newNode :: "node_kind \<Rightarrow> props"
  inheritedMember :: "string \<Rightarrow> bool"

definition fontFallbackEntries :: "(string \<times> string) list" where
  "fontFallbackEntries =
     [(''Arial'', ''Inter''),
      (''Helvetica'', ''Inter''),
      (''Roboto'', ''Inter''),
      (''Open Sans'', ''Inter''),
      (''Lato'', ''Inter''),
      (''Montserrat'', ''Inter''),
      (''Source Sans Pro'', ''Inter''),
      (''Nunito'', ''Inter''),
      (''Poppins'', ''Inter''),
      (''Times New Roman'', ''Georgia''),
      (''Georgia'', ''Georgia''),
      (''Playfair Display'', ''Georgia''),
      (''Merriweather'', ''Georgia''),
      (''Lora'', ''Georgia''),
      (''Courier New'', ''Roboto Mono''),
      (''Consolas'', ''Roboto Mono''),
      (''Monaco'', ''Roboto Mono''),
      (''Source Code Pro'', ''Roboto Mono'')]"

text \<open>
  \<open>FONT_FALLBACKS[fontFamily]\<close> on the object literal, as far as its truth and its value go:
  the entry under a listed key; else the member that the object inherits under that name,
  which is no string; else nothing (\<open>undefined\<close>).
\<close>

definition FONT_FALLBACKS :: "host \<Rightarrow> string \<Rightarrow> family_value option" where
  "FONT_FALLBACKS h fontFamily =
     (case map_of fontFallbackEntries fontFamily of
        Some fallbackFamily \<Rightarrow> Some (Named fallbackFamily)
      | None \<Rightarrow> if inheritedMember h fontFamily then Some (Inherited fontFamily) else None)"

text \<open>
  What the run has done to the host so far: the font loads attempted, every node
  constructor called, the console, the children appended to the container being filled
  (the \<open>parent\<close> every materializer receives: the slide's frame), the frames appended
  to the page, the selection, and the messages posted to the UI.
\<close>

datatype console_entry =
    OriginalSize real real real
  | FailedToCreateElement error
  | FailedToCreateImage error
  | FailedToApplyTextFormatting error

datatype ui_msg =
    ErrorMsg string
  | ProgressMsg real string
  | CompleteMsg nat

record world =
  fontLog :: "FontName list"
  created :: "node_kind list"
  console :: "console_entry list"
  parentChildren :: "node list"
  page :: "node list"
  selection :: "node list"
  posted :: "ui_msg list"

text \<open>
  \<open>await figma.loadFontAsync(fontName)\<close>: the attempt is recorded, and the call either
  returns or throws.
\<close>

definition loadFontAsync :: "host \<Rightarrow> FontName \<Rightarrow> world \<Rightarrow> world \<times> (error + unit)" where
  "loadFontAsync h fontName w =
     (w\<lparr>fontLog := fontLog w @ [fontName]\<rparr>,
      if loadFontOk h (length (fontLog w)) fontName then Inr () else Inl (FontLoadError fontName))"

definition fontStyle_of :: "real \<Rightarrow> bool \<Rightarrow> string" where
  "fontStyle_of fontWeight isItalic =
     (if fontWeight \<ge> 700 \<and> isItalic then ''Bold Italic''
      else if fontWeight \<ge> 700 then ''Bold''
      else if isItalic then ''Italic''
      else ''Regular'')"

definition fallbackStyle :: "real \<Rightarrow> string" where
  "fallbackStyle fontWeight = (if fontWeight \<ge> 700 then ''Bold'' else ''Regular'')"

text \<open>
  The block the source writes three times (for the exact family, for the mapped family and
  in the body of the loop over the category list):
  \<^verbatim>\<open>try { load {family, style}; return it }
  catch { if (isItalic) { try { load {family, fallbackStyle}; return it } catch {} } }\<close>
  \<open>Some\<close> is the \<open>return\<close>; \<open>None\<close> is falling through to the next step.
\<close>

definition tryFamily ::
  "host \<Rightarrow> family_value \<Rightarrow> string \<Rightarrow> real \<Rightarrow> bool \<Rightarrow> world \<Rightarrow> world \<times> FontName option" where
  "tryFamily h fam sty fontWeight isItalic w =
     (let fontName = \<lparr>family = fam, style = sty\<rparr>
      in case loadFontAsync h fontName w of
           (w1, Inr _) \<Rightarrow> (w1, Some fontName)
         | (w1, Inl _) \<Rightarrow>
             if isItalic then
               (let fontName2 = \<lparr>family = fam, style = fallbackStyle fontWeight\<rparr>
                in case loadFontAsync h fontName2 w1 of
                     (w2, Inr _) \<Rightarrow> (w2, Some fontName2)
                   | (w2, Inl _) \<Rightarrow> (w2, None))
             else (w1, None))"

definition isSerif :: "string \<Rightarrow> bool" where
  "isSerif fontFamily =
     regexTestCI [''serif'', ''georgia'', ''times'', ''garamond'', ''palatino''] fontFamily"

definition isMono :: "string \<Rightarrow> bool" where
  "isMono fontFamily = regexTestCI [''mono'', ''courier'', ''consolas'', ''code''] fontFamily"

definition fallbackList :: "string \<Rightarrow> string list" where
  "fallbackList fontFamily =
     (if isMono fontFamily then [''Roboto Mono'', ''Courier New'']
      else if isSerif fontFamily then [''Georgia'', ''Times New Roman'']
      else [''Inter'', ''Roboto'', ''Arial''])"

fun tryFallbacks ::
  "host \<Rightarrow> string list \<Rightarrow> string \<Rightarrow> real \<Rightarrow> bool \<Rightarrow> world \<Rightarrow> world \<times> FontName option" where
  "tryFallbacks h [] sty fontWeight isItalic w = (w, None)"
| "tryFallbacks h (fallback # rest) sty fontWeight isItalic w =
     (case tryFamily h (Named fallback) sty fontWeight isItalic w of
        (w1, Some fontName) \<Rightarrow> (w1, Some fontName)
      | (w1, None) \<Rightarrow> tryFallbacks h rest sty fontWeight isItalic w1)"

definition interRegular :: FontName where
  "interRegular = \<lparr>family = Named ''Inter'', style = ''Regular''\<rparr>"

definition arialRegular :: FontName where
  "arialRegular = \<lparr>family = Named ''Arial'', style = ''Regular''\<rparr>"

definition loadFont :: "host \<Rightarrow> string \<Rightarrow> real \<Rightarrow> bool \<Rightarrow> world \<Rightarrow> world \<times> (error + FontName)" where
  "loadFont h fontFamily fontWeight isItalic w =
     (let sty = fontStyle_of fontWeight isItalic
      in case tryFamily h (Named fontFamily) sty fontWeight isItalic w of
           (w1, Some fontName) \<Rightarrow> (w1, Inr fontName)
         | (w1, None) \<Rightarrow>
             (case (case FONT_FALLBACKS h fontFamily of
                      Some fallbackFamily \<Rightarrow> tryFamily h fallbackFamily sty fontWeight isItalic w1
                    | None \<Rightarrow> (w1, None)) of
                (w2, Some fontName) \<Rightarrow> (w2, Inr fontName)
              | (w2, None) \<Rightarrow>
                  (case tryFallbacks h (fallbackList fontFamily) sty fontWeight isItalic w2 of
                     (w3, Some fontName) \<Rightarrow> (w3, Inr fontName)
                   | (w3, None) \<Rightarrow>
                       (case loadFontAsync h interRegular w3 of
                          (w4, Inr _) \<Rightarrow> (w4, Inr interRegular)
                        | (w4, Inl _) \<Rightarrow>
                            (case loadFontAsync h arialRegular w4 of
                               (w5, Inr _) \<Rightarrow> (w5, Inr arialRegular)
                             | (w5, Inl e) \<Rightarrow> (w5, Inl e))))))"

subsection \<open>The document\<close>

record TextRun =
  run_text :: string
  run_fontFamily :: string
  run_fontSize :: real
  run_fontWeight :: real
  run_fontStyle :: string
  run_color :: ColorRGB
  run_underline :: bool
  run_strikethrough :: bool

record TextContent =
  runs :: "TextRun list"
  alignment :: "string option"

text \<open>The fields of a \<open>SlideElement\<close> other than \<open>children\<close>.\<close>

record elem =
  el_type :: string
  el_x :: real
  el_y :: real
  el_width :: real
  el_height :: real
  el_scaleX :: real
  el_scaleY :: real
  el_rotation :: real
  el_shapeType :: "string option"
  el_fillColor :: "ColorRGB option"
  el_strokeColor :: "ColorRGB option"
  el_strokeWeight :: "real option"
  el_text :: "TextContent option"
  el_imageUrl :: "string option"
  el_rows :: "string list list option"
  el_rowCount :: "real option"
  el_columnCount :: "real option"

datatype SlideElement = Element elem "SlideElement list option"

record Slide =
  slide_index :: real
  slide_elements :: "SlideElement list"

text \<open>
  \<open>pres_pageWidth\<close> is \<open>presentation.pageSize?.width?.magnitude\<close>, \<open>None\<close> when a link
  of the chain is missing; likewise the height.
\<close>

record Presentation =
  pres_title :: string
  pres_pageWidth :: "real option"
  pres_pageHeight :: "real option"
  pres_slides :: "Slide list"

subsection \<open>Host calls\<close>

definition figmaCreate :: "host \<Rightarrow> node_kind \<Rightarrow> world \<Rightarrow> props \<times> world" where
  "figmaCreate h k w = ((newNode h k)\<lparr>kind := k\<rparr>, w\<lparr>created := created w @ [k]\<rparr>)"

definition resize :: "real \<Rightarrow> real \<Rightarrow> props \<Rightarrow> props" where
  "resize width height n = n\<lparr>nodeWidth := width, nodeHeight := height\<rparr>"

definition appendChild :: "node \<Rightarrow> world \<Rightarrow> world" where
  "appendChild n w = w\<lparr>parentChildren := parentChildren w @ [n]\<rparr>"

definition consoleError :: "console_entry \<Rightarrow> world \<Rightarrow> world" where
  "consoleError e w = w\<lparr>console := console w @ [e]\<rparr>"

definition postMessage :: "ui_msg \<Rightarrow> world \<Rightarrow> world" where
  "postMessage m w = w\<lparr>posted := posted w @ [m]\<rparr>"

definition mathRound :: "real \<Rightarrow> real" where
  "mathRound v = of_int \<lfloor>v + 1 / 2\<rfloor>"

text \<open>\<open>if (element.rotation && element.rotation !== 0) node.rotation = -element.rotation\<close>\<close>

definition applyRotation :: "elem \<Rightarrow> props \<Rightarrow> props" where
  "applyRotation element n =
     (if el_rotation element \<noteq> 0 then n\<lparr>nodeRotation := - el_rotation element\<rparr> else n)"

subsection \<open>Text in a shape\<close>

text \<open>
  The loop over the runs. The \<open>try\<close> block holds the font resolution and four setters;
  the resolution is the call in it that may throw, before any setter has run. A run's
  \<open>color\<close> is an object by its type, so the test \<open>if (run.color)\<close> passes. The set
  \<open>fontsToLoad\<close> that the source fills before the loop is never read and is left out.
\<close>

fun formatRuns :: "host \<Rightarrow> real \<Rightarrow> TextRun list \<Rightarrow> nat \<Rightarrow> props \<Rightarrow> world \<Rightarrow> props \<times> world" where
  "formatRuns h scale [] charIndex textNode w = (textNode, w)"
| "formatRuns h scale (run # rest) charIndex textNode w =
     (let runLength = length (run_text run)
      in if runLength = 0 then formatRuns h scale rest charIndex textNode w
         else
           (let startIndex = charIndex;
                endIndex = charIndex + runLength;
                isItalic = (run_fontStyle run = ''italic'')
            in case loadFont h (run_fontFamily run) (run_fontWeight run) isItalic w of
                 (w1, Inr fontName) \<Rightarrow>
                   (let runFontSize =
                          mathRound ((if run_fontSize run = 0 then 14 else run_fontSize run) * scale)
                    in formatRuns h scale rest endIndex
                         (textNode\<lparr>ranges := ranges textNode @
                            [SetRangeFontName startIndex endIndex fontName,
                             SetRangeFontSize startIndex endIndex (max 1 runFontSize),
                             SetRangeFills startIndex endIndex [SOLID (run_color run)]] @
                            (if run_underline run
                             then [SetRangeTextDecoration startIndex endIndex ''UNDERLINE'']
                             else []) @
                            (if run_strikethrough run
                             then [SetRangeTextDecoration startIndex endIndex ''STRIKETHROUGH'']
                             else [])\<rparr>)
                         w1)
               | (w1, Inl err) \<Rightarrow>
                   formatRuns h scale rest endIndex textNode
                     (consoleError (FailedToApplyTextFormatting err) w1)))"

definition horizontalAlign :: "string option \<Rightarrow> string" where
  "horizontalAlign a =
     (let alignment = (case a of Some v \<Rightarrow> if v = [] then ''START'' else v | None \<Rightarrow> ''START'')
      in if alignment = ''CENTER'' then ''CENTER''
         else if alignment = ''END'' then ''RIGHT''
         else if alignment = ''JUSTIFIED'' then ''JUSTIFIED''
         else ''LEFT'')"

text \<open>
  The text node once the default font is loaded: font, characters and scaled size of the
  first run.
\<close>

definition withDefaultFont :: "TextContent \<Rightarrow> real \<Rightarrow> FontName \<Rightarrow> props \<Rightarrow> props" where
  "withDefaultFont tc scale defaultFont textNode =
     (let fullText = concat (map run_text (runs tc));
          firstRun = hd (runs tc);
          scaledFontSize = mathRound ((if run_fontSize firstRun = 0 then 14
                                       else run_fontSize firstRun) * scale)
      in textNode\<lparr>nodeFontName := Some defaultFont,
                   characters := fullText,
                   nodeFontSize := max 1 scaledFontSize\<rparr>)"

text \<open>The end of \<open>createTextForShape\<close>: box, alignment and rotation.\<close>

definition layoutTextBox ::
  "elem \<Rightarrow> TextContent \<Rightarrow> real \<Rightarrow> real \<Rightarrow> real \<Rightarrow> real \<Rightarrow> real \<Rightarrow> props \<Rightarrow> props" where
  "layoutTextBox element tc x y width height scale textNode =
     (let padding = 4 * scale;
          textNode1 = (resize (max 1 (width - padding * 2)) (max 1 (height - padding * 2)) textNode)
                        \<lparr>nodeX := x + padding,
                         nodeY := y + padding,
                         textAlignHorizontal := horizontalAlign (alignment tc),
                         textAlignVertical := ''CENTER'',
                         textAutoResize := ''NONE''\<rparr>
      in applyRotation element textNode1)"

definition createTextForShape ::
  "host \<Rightarrow> elem \<Rightarrow> real \<Rightarrow> real \<Rightarrow> real \<Rightarrow> real \<Rightarrow> real \<Rightarrow> world \<Rightarrow> world \<times> (error + unit)" where
  "createTextForShape h element x y width height scale w =
     (case el_text element of
        None \<Rightarrow> (w, Inr ())
      | Some tc \<Rightarrow>
          if runs tc = [] then (w, Inr ())
          else
            (let fullText = concat (map run_text (runs tc))
             in if trim fullText = [] then (w, Inr ())
                else
                  (case figmaCreate h TEXT w of
                     (textNode, w0) \<Rightarrow>
                       (let firstRun = hd (runs tc);
                            isFirstItalic = (run_fontStyle firstRun = ''italic'')
                        in case loadFont h (run_fontFamily firstRun) (run_fontWeight firstRun)
                                  isFirstItalic w0 of
                             (w1, Inl err) \<Rightarrow> (w1, Inl err)
                           | (w1, Inr defaultFont) \<Rightarrow>
                               (case formatRuns h scale (runs tc) 0
                                       (withDefaultFont tc scale defaultFont textNode) w1 of
                                  (textNode2, w2) \<Rightarrow>
                                    (appendChild
                                       (Node (layoutTextBox element tc x y width height scale
                                                textNode2) [])
                                       w2,
                                     Inr ()))))))"

subsection \<open>Shapes\<close>

text \<open>The primitive for the shape kind, sized; everything but an ellipse is a rectangle.\<close>

definition createShapeNode :: "host \<Rightarrow> elem \<Rightarrow> real \<Rightarrow> real \<Rightarrow> world \<Rightarrow> props \<times> world" where
  "createShapeNode h element width height w =
     (let shapeType = (case el_shapeType element of
                         Some t \<Rightarrow> if t = [] then ''RECTANGLE'' else t
                       | None \<Rightarrow> ''RECTANGLE'')
      in if shapeType = ''ELLIPSE'' then
           (case figmaCreate h ELLIPSE w of
              (ellipse, w0) \<Rightarrow> (resize width height ellipse, w0))
         else if shapeType = ''ROUND_RECTANGLE'' then
           (case figmaCreate h RECTANGLE w of
              (rect, w0) \<Rightarrow>
                ((resize width height rect)\<lparr>cornerRadius := min width height * (1 / 10)\<rparr>, w0))
         else
           (case figmaCreate h RECTANGLE w of
              (rect, w0) \<Rightarrow> (resize width height rect, w0)))"

definition applyFill :: "elem \<Rightarrow> props \<Rightarrow> props" where
  "applyFill element n =
     n\<lparr>fills := (case el_fillColor element of Some c \<Rightarrow> [SOLID c] | None \<Rightarrow> [])\<rparr>"

definition applyStroke :: "elem \<Rightarrow> props \<Rightarrow> props" where
  "applyStroke element n =
     (case (el_strokeColor element, el_strokeWeight element) of
        (Some c, Some sw) \<Rightarrow>
          if sw \<noteq> 0 then n\<lparr>strokes := [SOLID c], nodeStrokeWeight := sw\<rparr> else n
      | _ \<Rightarrow> n)"

definition createShape ::
  "host \<Rightarrow> elem \<Rightarrow> real \<Rightarrow> real \<Rightarrow> real \<Rightarrow> real \<Rightarrow> real \<Rightarrow> world \<Rightarrow> world \<times> (error + unit)" where
  "createShape h element x y width height scale w =
     (case createShapeNode h element width height w of
        (node0, w0) \<Rightarrow>
          (let node1 = node0\<lparr>nodeX := x, nodeY := y\<rparr>;
               node2 = applyRotation element (applyStroke element (applyFill element node1));
               w1 = appendChild (Node node2 []) w0
           in if (case el_text element of Some tc \<Rightarrow> runs tc \<noteq> [] | None \<Rightarrow> False)
              then createTextForShape h element x y width height scale w1
              else (w1, Inr ())))"

subsection \<open>Images\<close>

definition isLineTerminator :: "char \<Rightarrow> bool" where
  "isLineTerminator c = (c = CHR 0x0A \<or> c = CHR 0x0D)"

text \<open>
  \<open>base64Data.match(/^data:([^;]+);base64,(.+)$/)\<close>: the two groups, or \<open>None\<close> for no
  match. The first group is the longest run without a semicolon after \<open>data:\<close> (a shorter
  one is not followed by a semicolon); the second is all the rest, which the dot keeps
  free of line terminators.
\<close>

definition matchDataUri :: "string \<Rightarrow> (string \<times> string) option" where
  "matchDataUri s =
     (if startsWith s ''data:'' then
        (let rest = drop 5 s;
             mime = takeWhile (\<lambda>c. c \<noteq> CHR '';'') rest;
             after = dropWhile (\<lambda>c. c \<noteq> CHR '';'') rest
         in if mime \<noteq> [] \<and> startsWith after '';base64,'' then
              (let payload = drop 8 after
               in if payload \<noteq> [] \<and> \<not> list_ex isLineTerminator payload
                  then Some (mime, payload) else None)
            else None)
      else None)"

definition placeholderGray :: ColorRGB where
  "placeholderGray = \<lparr>red = 9 / 10, green = 9 / 10, blue = 9 / 10\<rparr>"

text \<open>The placeholder block, which the source writes twice with two names.\<close>

definition placeholderProps :: "string \<Rightarrow> real \<Rightarrow> real \<Rightarrow> real \<Rightarrow> real \<Rightarrow> props \<Rightarrow> props" where
  "placeholderProps nm x y width height placeholder =
     (resize width height (placeholder\<lparr>nodeX := x, nodeY := y\<rparr>))
       \<lparr>fills := [SOLID placeholderGray], name := nm\<rparr>"

definition createPlaceholder ::
  "host \<Rightarrow> string \<Rightarrow> real \<Rightarrow> real \<Rightarrow> real \<Rightarrow> real \<Rightarrow> world \<Rightarrow> world" where
  "createPlaceholder h nm x y width height w =
     (case figmaCreate h RECTANGLE w of
        (placeholder, w0) \<Rightarrow>
          appendChild (Node (placeholderProps nm x y width height placeholder) []) w0)"

text \<open>The body of the \<open>try\<close> block of \<open>createImage\<close>.\<close>

definition imageRectProps ::
  "elem \<Rightarrow> string \<Rightarrow> real \<Rightarrow> real \<Rightarrow> real \<Rightarrow> real \<Rightarrow> props \<Rightarrow> props" where
  "imageRectProps element hash x y width height rect =
     applyRotation element
       ((resize width height (rect\<lparr>nodeX := x, nodeY := y\<rparr>))
          \<lparr>fills := [IMAGE hash ''FILL''], name := ''Image''\<rparr>)"

definition createImageRect ::
  "host \<Rightarrow> elem \<Rightarrow> real \<Rightarrow> real \<Rightarrow> real \<Rightarrow> real \<Rightarrow> string \<Rightarrow> world \<Rightarrow> world \<times> (error + unit)" where
  "createImageRect h element x y width height base64Data w =
     (case matchDataUri base64Data of
        None \<Rightarrow> (w, Inl InvalidBase64Data)
      | Some (mime, base64Content) \<Rightarrow>
          (case base64Decode h base64Content of
             None \<Rightarrow> (w, Inl Base64DecodeError)
           | Some bytes \<Rightarrow>
               (case imageHash h bytes of
                  None \<Rightarrow> (w, Inl CreateImageError)
                | Some hash \<Rightarrow>
                    (case figmaCreate h RECTANGLE w of
                       (rect, w0) \<Rightarrow>
                         (appendChild
                            (Node (imageRectProps element hash x y width height rect) []) w0,
                          Inr ())))))"

definition createImage ::
  "host \<Rightarrow> elem \<Rightarrow> real \<Rightarrow> real \<Rightarrow> real \<Rightarrow> real \<Rightarrow> (string \<Rightarrow> string option) \<Rightarrow> world
     \<Rightarrow> world \<times> (error + unit)" where
  "createImage h element x y width height imageData w =
     (case el_imageUrl element of
        None \<Rightarrow> (w, Inr ())
      | Some imageUrl \<Rightarrow>
          if imageUrl = [] then (w, Inr ())
          else
            (case imageData imageUrl of
               None \<Rightarrow> (createPlaceholder h ''Image (failed to load)'' x y width height w, Inr ())
             | Some base64Data \<Rightarrow>
                 if base64Data = []
                 then (createPlaceholder h ''Image (failed to load)'' x y width height w, Inr ())
                 else
                   (case createImageRect h element x y width height base64Data w of
                      (w1, Inr _) \<Rightarrow> (w1, Inr ())
                    | (w1, Inl err) \<Rightarrow>
                        (createPlaceholder h ''Image (error)'' x y width height
                           (consoleError (FailedToCreateImage err) w1),
                         Inr ()))))"

subsection \<open>Lines\<close>

definition atan2 :: "real \<Rightarrow> real \<Rightarrow> real" where
  "atan2 b a =
     (if a > 0 then arctan (b / a)
      else if a < 0 \<and> b \<ge> 0 then arctan (b / a) + pi
      else if a < 0 then arctan (b / a) - pi
      else if b > 0 then pi / 2
      else if b < 0 then - pi / 2
      else 0)"

definition createLine :: "host \<Rightarrow> elem \<Rightarrow> real \<Rightarrow> real \<Rightarrow> real \<Rightarrow> real \<Rightarrow> world \<Rightarrow> world" where
  "createLine h element x y width height w =
     (case figmaCreate h LINE w of
        (line, w0) \<Rightarrow>
          (let line1 = line\<lparr>nodeX := x, nodeY := y\<rparr>;
               lineLength = sqrt (width * width + height * height);
               line2 = resize lineLength 0 line1;
               line3 = (if width \<noteq> 0 \<or> height \<noteq> 0
                        then line2\<lparr>nodeRotation := - (atan2 height width * (180 / pi))\<rparr>
                        else line2);
               line4 = (case el_strokeColor element of
                          Some c \<Rightarrow> line3\<lparr>strokes := [SOLID c]\<rparr>
                        | None \<Rightarrow> line3);
               line5 = line4\<lparr>nodeStrokeWeight :=
                          (case el_strokeWeight element of
                             Some sw \<Rightarrow> if sw \<noteq> 0 then sw else 1
                           | None \<Rightarrow> 1)\<rparr>
           in appendChild (Node line5 []) w0))"

subsection \<open>Tables\<close>

definition white :: ColorRGB where
  "white = \<lparr>red = 1, green = 1, blue = 1\<rparr>"

definition cellBorder :: ColorRGB where
  "cellBorder = \<lparr>red = 8 / 10, green = 8 / 10, blue = 8 / 10\<rparr>"

text \<open>\<open>rows[row]?.[col] || ''\<close>\<close>

definition cellTextAt :: "string list list \<Rightarrow> nat \<Rightarrow> nat \<Rightarrow> string" where
  "cellTextAt rows row col =
     (if row < length rows \<and> col < length (rows ! row) then rows ! row ! col else [])"

definition cellProps :: "real \<Rightarrow> real \<Rightarrow> real \<Rightarrow> nat \<Rightarrow> nat \<Rightarrow> props \<Rightarrow> props" where
  "cellProps cellWidth cellHeight scale row col cell =
     (resize cellWidth cellHeight
        (cell\<lparr>nodeX := real col * cellWidth, nodeY := real row * cellHeight\<rparr>))
       \<lparr>fills := [SOLID white],
        strokes := [SOLID cellBorder],
        nodeStrokeWeight := max 1 scale\<rparr>"

definition cellTextProps ::
  "FontName \<Rightarrow> string \<Rightarrow> real \<Rightarrow> real \<Rightarrow> real \<Rightarrow> nat \<Rightarrow> nat \<Rightarrow> props \<Rightarrow> props" where
  "cellTextProps fontName cellText cellWidth cellHeight padding row col textNode =
     (resize (cellWidth - padding * 2) (cellHeight - padding * 2)
        (textNode\<lparr>nodeFontName := Some fontName,
                  characters := cellText,
                  nodeFontSize := 10,
                  nodeX := real col * cellWidth + padding,
                  nodeY := real row * cellHeight + padding\<rparr>))
       \<lparr>textAutoResize := ''TRUNCATE''\<rparr>"

text \<open>
  The body of the inner loop: the cell's rectangle, then its text node when the text is
  not blank; both are appended to the table frame, whose children are the first component.
\<close>

definition createCell ::
  "host \<Rightarrow> FontName \<Rightarrow> string list list \<Rightarrow> real \<Rightarrow> real \<Rightarrow> real \<Rightarrow> real \<Rightarrow> nat \<Rightarrow> nat
     \<Rightarrow> node list \<times> world \<Rightarrow> node list \<times> world" where
  "createCell h fontName rows cellWidth cellHeight padding scale row col st =
     (case st of
        (tableChildren, w) \<Rightarrow>
          (let cellText = cellTextAt rows row col
           in case figmaCreate h RECTANGLE w of
                (cell, w0) \<Rightarrow>
                  (let tableChildren1 =
                         tableChildren @ [Node (cellProps cellWidth cellHeight scale row col cell) []]
                   in if trim cellText \<noteq> [] then
                        (case figmaCreate h TEXT w0 of
                           (textNode, w1) \<Rightarrow>
                             (tableChildren1 @
                                [Node (cellTextProps fontName cellText cellWidth cellHeight
                                         padding row col textNode) []],
                              w1))
                      else (tableChildren1, w0))))"

definition createCells ::
  "host \<Rightarrow> FontName \<Rightarrow> string list list \<Rightarrow> nat \<Rightarrow> nat \<Rightarrow> real \<Rightarrow> real \<Rightarrow> real \<Rightarrow> real
     \<Rightarrow> node list \<times> world \<Rightarrow> node list \<times> world" where
  "createCells h fontName rows rowCount colCount cellWidth cellHeight padding scale st =
     fold (\<lambda>row. fold (createCell h fontName rows cellWidth cellHeight padding scale row)
                     [0..<colCount])
          [0..<rowCount] st"

definition tableFrameProps :: "real \<Rightarrow> real \<Rightarrow> real \<Rightarrow> real \<Rightarrow> props \<Rightarrow> props" where
  "tableFrameProps x y width height tableFrame =
     (resize width height (tableFrame\<lparr>name := ''Table'', nodeX := x, nodeY := y\<rparr>))
       \<lparr>fills := []\<rparr>"

definition createTable ::
  "host \<Rightarrow> elem \<Rightarrow> real \<Rightarrow> real \<Rightarrow> real \<Rightarrow> real \<Rightarrow> real \<Rightarrow> world \<Rightarrow> world \<times> (error + unit)" where
  "createTable h element x y width height scale w =
     (let rows = (case el_rows element of Some rs \<Rightarrow> rs | None \<Rightarrow> []);
          rowCount = length rows;
          colCount = (case rows of [] \<Rightarrow> 0 | row0 # _ \<Rightarrow> length row0)
      in if rowCount = 0 \<or> colCount = 0 then (w, Inr ())
         else
           (case figmaCreate h FRAME w of
              (tableFrame, w0) \<Rightarrow>
                (let cellWidth = width / real colCount;
                     cellHeight = height / real rowCount
                 in case loadFont h ''Arial'' 400 False w0 of
                      (w1, Inl err) \<Rightarrow> (w1, Inl err)
                    | (w1, Inr fontName) \<Rightarrow>
                        (let padding = 4 * scale
                         in case createCells h fontName rows rowCount colCount
                                   cellWidth cellHeight padding scale ([], w1) of
                              (tableChildren, w2) \<Rightarrow>
                                (appendChild
                                   (Node (tableFrameProps x y width height tableFrame)
                                      tableChildren)
                                   w2,
                                 Inr ())))))"

subsection \<open>Dispatch and groups\<close>

text \<open>The four constants at the head of \<open>createElement\<close>.\<close>

definition elementWidth :: "elem \<Rightarrow> real \<Rightarrow> real" where
  "elementWidth element scale = max 1 (el_width element * \<bar>el_scaleX element\<bar> * scale)"

definition elementHeight :: "elem \<Rightarrow> real \<Rightarrow> real" where
  "elementHeight element scale = max 1 (el_height element * \<bar>el_scaleY element\<bar> * scale)"

definition elementX :: "elem \<Rightarrow> real \<Rightarrow> real" where
  "elementX element scale = el_x element * scale"

definition elementY :: "elem \<Rightarrow> real \<Rightarrow> real" where
  "elementY element scale = el_y element * scale"

text \<open>
  \<open>createGroup\<close> receives the element's \<open>children\<close>; \<open>createGroupLoop\<close> is its
  \<open>for (const child of element.children)\<close>, which ends at the first child that throws.
\<close>

fun createElement ::
  "host \<Rightarrow> SlideElement \<Rightarrow> (string \<Rightarrow> string option) \<Rightarrow> real \<Rightarrow> world \<Rightarrow> world \<times> (error + unit)"
and createGroup ::
  "host \<Rightarrow> SlideElement list option \<Rightarrow> real \<Rightarrow> real \<Rightarrow> (string \<Rightarrow> string option) \<Rightarrow> real \<Rightarrow> world
     \<Rightarrow> world \<times> (error + unit)"
and createGroupLoop ::
  "host \<Rightarrow> SlideElement list \<Rightarrow> real \<Rightarrow> real \<Rightarrow> (string \<Rightarrow> string option) \<Rightarrow> real \<Rightarrow> world
     \<Rightarrow> world \<times> (error + unit)"
where
  "createElement h (Element element children) imageData scale w =
     (let width = elementWidth element scale;
          height = elementHeight element scale;
          x = elementX element scale;
          y = elementY element scale
      in if el_type element = ''shape'' then createShape h element x y width height scale w
         else if el_type element = ''image'' then
           createImage h element x y width height imageData w
         else if el_type element = ''line'' then (createLine h element x y width height w, Inr ())
         else if el_type element = ''table'' then createTable h element x y width height scale w
         else if el_type element = ''group'' then createGroup h children x y imageData scale w
         else (w, Inr ()))"
| "createGroup h None x y imageData scale w = (w, Inr ())"
| "createGroup h (Some children) x y imageData scale w =
     (if children = [] then (w, Inr ())
      else createGroupLoop h children x y imageData scale w)"
| "createGroupLoop h [] x y imageData scale w = (w, Inr ())"
| "createGroupLoop h (Element child grandchildren # rest) x y imageData scale w =
     (case createElement h
             (Element (child\<lparr>el_x := x / scale + el_x child, el_y := y / scale + el_y child\<rparr>)
                      grandchildren)
             imageData scale w of
        (w1, Inl err) \<Rightarrow> (w1, Inl err)
      | (w1, Inr _) \<Rightarrow> createGroupLoop h rest x y imageData scale w1)"

fun createElements ::
  "host \<Rightarrow> SlideElement list \<Rightarrow> (string \<Rightarrow> string option) \<Rightarrow> real \<Rightarrow> world \<Rightarrow> world" where
  "createElements h [] imageData scale w = w"
| "createElements h (element # rest) imageData scale w =
     (case createElement h element imageData scale w of
        (w1, Inr _) \<Rightarrow> createElements h rest imageData scale w1
      | (w1, Inl err) \<Rightarrow>
          createElements h rest imageData scale (consoleError (FailedToCreateElement err) w1))"

subsection \<open>The orchestrator\<close>

fun showNat :: "nat \<Rightarrow> string" where
  "showNat n =
     (if n < 10 then [''0123456789'' ! n]
      else showNat (n div 10) @ [''0123456789'' ! (n mod 10)])"

declare showNat.simps [simp del]

text \<open>\<open>v || d\<close> for a number that may be missing.\<close>

definition orElse :: "real option \<Rightarrow> real \<Rightarrow> real" where
  "orElse v d = (case v of Some m \<Rightarrow> if m = 0 then d else m | None \<Rightarrow> d)"

text \<open>\<open>(emu || 0) / 914400 * 72\<close>; on a number, \<open>emu || 0\<close> is \<open>emu\<close>.\<close>

definition emuToPixels :: "real \<Rightarrow> real" where
  "emuToPixels emu = emu / 914400 * 72"

definition originalWidth :: "Presentation \<Rightarrow> real" where
  "originalWidth presentation = emuToPixels (orElse (pres_pageWidth presentation) 9144000)"

definition originalHeight :: "Presentation \<Rightarrow> real" where
  "originalHeight presentation = emuToPixels (orElse (pres_pageHeight presentation) 5143500)"

definition fitScale :: "Presentation \<Rightarrow> real" where
  "fitScale presentation =
     (let targetWidth = 1920;
          targetHeight = 1080;
          scaleX = targetWidth / originalWidth presentation;
          scaleY = targetHeight / originalHeight presentation
      in min scaleX scaleY)"

text \<open>
  The loop over the slides, \<open>i\<close> counting from 0. The frame of a slide is new, so the
  container being filled starts empty; the frame is appended to the page with the
  children it got.
\<close>

fun importSlides ::
  "host \<Rightarrow> (string \<Rightarrow> string option) \<Rightarrow> real \<Rightarrow> nat \<Rightarrow> nat \<Rightarrow> Slide list \<Rightarrow> node list \<Rightarrow> world
     \<Rightarrow> node list \<times> world" where
  "importSlides h imageData scale totalSlides i [] createdFrames w = (createdFrames, w)"
| "importSlides h imageData scale totalSlides i (slide # rest) createdFrames w =
     (let w1 = postMessage
                 (ProgressMsg (60 + (real i / real totalSlides) * 35)
                    (''Creating slide '' @ showNat (i + 1) @ '' of '' @ showNat totalSlides @ ''...''))
                 w
      in case figmaCreate h FRAME w1 of
           (frame, w2) \<Rightarrow>
             (let frame1 = (resize 1920 1080 (frame\<lparr>name := ''Slide '' @ showNat (i + 1)\<rparr>))
                             \<lparr>nodeX := real i * (1920 + 100),
                              nodeY := 0,
                              fills := [SOLID white]\<rparr>;
                  w3 = createElements h (slide_elements slide) imageData scale
                         (w2\<lparr>parentChildren := []\<rparr>);
                  frameNode = Node frame1 (parentChildren w3);
                  w4 = w3\<lparr>page := page w3 @ [frameNode]\<rparr>
              in importSlides h imageData scale totalSlides (Suc i) rest
                   (createdFrames @ [frameNode]) w4))"

definition importPresentation ::
  "host \<Rightarrow> Presentation \<Rightarrow> (string \<Rightarrow> string option) \<Rightarrow> world \<Rightarrow> world" where
  "importPresentation h presentation imageData w =
     (let slides = pres_slides presentation;
          totalSlides = length slides
      in if totalSlides = 0
         then postMessage (ErrorMsg ''No slides found in presentation'') w
         else
           (let scale = fitScale presentation;
                w0 = w\<lparr>console := console w @
                        [OriginalSize (originalWidth presentation) (originalHeight presentation)
                           scale]\<rparr>
            in case importSlides h imageData scale totalSlides 0 slides [] w0 of
                 (createdFrames, w1) \<Rightarrow>
                   postMessage (CompleteMsg totalSlides) (w1\<lparr>selection := createdFrames\<rparr>)))"

subsection \<open>The compiled variant: text in a shape\<close>

text \<open>
  \<open>loadFont\<close> of the compiled module takes no italic flag and tries one style per family.
\<close>

definition tryLoad :: "host \<Rightarrow> FontName \<Rightarrow> world \<Rightarrow> world \<times> FontName option" where
  "tryLoad h f w =
     (case loadFontAsync h f w of
        (w1, Inr _) \<Rightarrow> (w1, Some f)
      | (w1, Inl _) \<Rightarrow> (w1, None))"

fun tryFallbacks_js :: "host \<Rightarrow> string list \<Rightarrow> string \<Rightarrow> world \<Rightarrow> world \<times> FontName option" where
  "tryFallbacks_js h [] sty w = (w, None)"
| "tryFallbacks_js h (fallback # rest) sty w =
     (case tryLoad h \<lparr>family = Named fallback, style = sty\<rparr> w of
        (w1, Some f) \<Rightarrow> (w1, Some f)
      | (w1, None) \<Rightarrow> tryFallbacks_js h rest sty w1)"

definition loadFont_js :: "host \<Rightarrow> string \<Rightarrow> real \<Rightarrow> world \<Rightarrow> world \<times> (error + FontName)" where
  "loadFont_js h fontFamily fontWeight w =
     (let sty = (if fontWeight \<ge> 700 then ''Bold'' else ''Regular'')
      in case tryLoad h \<lparr>family = Named fontFamily, style = sty\<rparr> w of
           (w1, Some f) \<Rightarrow> (w1, Inr f)
         | (w1, None) \<Rightarrow>
             (case (case FONT_FALLBACKS h fontFamily of
                      Some fallbackFamily \<Rightarrow> tryLoad h \<lparr>family = fallbackFamily, style = sty\<rparr> w1
                    | None \<Rightarrow> (w1, None)) of
                (w2, Some f) \<Rightarrow> (w2, Inr f)
              | (w2, None) \<Rightarrow>
                  (case tryFallbacks_js h (fallbackList fontFamily) sty w2 of
                     (w3, Some f) \<Rightarrow> (w3, Inr f)
                   | (w3, None) \<Rightarrow>
                       (case loadFontAsync h interRegular w3 of
                          (w4, Inr _) \<Rightarrow> (w4, Inr interRegular)
                        | (w4, Inl _) \<Rightarrow>
                            (case loadFontAsync h arialRegular w4 of
                               (w5, Inr _) \<Rightarrow> (w5, Inr arialRegular)
                             | (w5, Inl e) \<Rightarrow> (w5, Inl e))))))"

text \<open>
  \<open>createTextForShape\<close> of the compiled module: the text node is made and placed before
  the runs are joined and the blank text is tested.
\<close>

definition createTextForShape_js ::
  "host \<Rightarrow> elem \<Rightarrow> real \<Rightarrow> real \<Rightarrow> real \<Rightarrow> real \<Rightarrow> world \<Rightarrow> world \<times> (error + unit)" where
  "createTextForShape_js h element x y width height w =
     (case el_text element of
        None \<Rightarrow> (w, Inr ())
      | Some tc \<Rightarrow>
          (case figmaCreate h TEXT w of
             (textNode, w0) \<Rightarrow>
               (let textNode1 = textNode\<lparr>nodeX := x + 8, nodeY := y + 8\<rparr>;
                    fullText = concat (map run_text (runs tc))
                in if trim fullText = [] then (w0, Inr ())
                   else
                     (let firstRun = hd (runs tc)
                      in case loadFont_js h (run_fontFamily firstRun) (run_fontWeight firstRun) w0 of
                           (w1, Inl err) \<Rightarrow> (w1, Inl err)
                         | (w1, Inr fontName) \<Rightarrow>
                             (let textNode2 = textNode1
                                    \<lparr>nodeFontName := Some fontName,
                                     characters := fullText,
                                     nodeFontSize := (if run_fontSize firstRun = 0 then 14
                                                      else run_fontSize firstRun),
                                     fills := [SOLID (run_color firstRun)]\<rparr>;
                                  textNode3 = (resize (max 1 (width - 16)) (max 1 (height - 16))
                                                 textNode2)
                                                \<lparr>textAutoResize := ''HEIGHT''\<rparr>
                              in (appendChild (Node (applyRotation element textNode3) []) w1,
                                  Inr ()))))))"

subsection \<open>The resolution ladder, as the specification words it\<close>

text \<open>
  The candidates in the order of the specification: the exact family at the derived style,
  then at the weight-only style when italic was asked; the mapped family likewise; each
  family of the category list likewise; at last Inter Regular and Arial Regular. The
  category is monospace when the family holds one of the monospace keywords, else serif
  when it holds one of the serif keywords, else sans.
\<close>

definition rung :: "family_value \<Rightarrow> real \<Rightarrow> bool \<Rightarrow> FontName list" where
  "rung fam fontWeight isItalic =
     \<lparr>family = fam, style = fontStyle_of fontWeight isItalic\<rparr> #
     (if isItalic then [\<lparr>family = fam, style = fallbackStyle fontWeight\<rparr>] else [])"

definition exactAndMapped :: "host \<Rightarrow> string \<Rightarrow> real \<Rightarrow> bool \<Rightarrow> FontName list" where
  "exactAndMapped h fontFamily fontWeight isItalic =
     rung (Named fontFamily) fontWeight isItalic @
     (case FONT_FALLBACKS h fontFamily of
        Some m \<Rightarrow> rung m fontWeight isItalic
      | None \<Rightarrow> [])"

definition categoryCandidates :: "string \<Rightarrow> string list" where
  "categoryCandidates fontFamily =
     (if regexTestCI [''mono'', ''courier'', ''consolas'', ''code''] fontFamily
      then [''Roboto Mono'', ''Courier New'']
      else if regexTestCI [''serif'', ''georgia'', ''times'', ''garamond'', ''palatino''] fontFamily
      then [''Georgia'', ''Times New Roman'']
      else [''Inter'', ''Roboto'', ''Arial''])"

definition ladder :: "host \<Rightarrow> string \<Rightarrow> real \<Rightarrow> bool \<Rightarrow> FontName list" where
  "ladder h fontFamily fontWeight isItalic =
     exactAndMapped h fontFamily fontWeight isItalic @
     concat (map (\<lambda>fam. rung (Named fam) fontWeight isItalic) (categoryCandidates fontFamily)) @
     [interRegular, arialRegular]"

text \<open>
  Trying a list of candidates strictly in order, the \<open>k\<close>-th load of the host first:
  the attempts made, and the first candidate that loaded.
\<close>

fun firstLoadable :: "(nat \<Rightarrow> FontName \<Rightarrow> bool) \<Rightarrow> nat \<Rightarrow> FontName list \<Rightarrow> FontName list \<times> FontName option" where
  "firstLoadable av k [] = ([], None)"
| "firstLoadable av k (f # fs) =
     (if av k f then ([f], Some f)
      else (case firstLoadable av (Suc k) fs of (tried, r) \<Rightarrow> (f # tried, r)))"

definition tryInOrder :: "host \<Rightarrow> FontName list \<Rightarrow> world \<Rightarrow> world \<times> FontName option" where
  "tryInOrder h cands w =
     (case firstLoadable (loadFontOk h) (length (fontLog w)) cands of
        (tried, r) \<Rightarrow> (w\<lparr>fontLog := fontLog w @ tried\<rparr>, r))"

text \<open>
  The resolver of the specification: the first candidate of the ladder that loads, and the
  failure of the last candidate when none does.
\<close>

definition runLadder :: "host \<Rightarrow> FontName list \<Rightarrow> world \<Rightarrow> world \<times> (error + FontName)" where
  "runLadder h cands w =
     (case tryInOrder h cands w of
        (w', Some f) \<Rightarrow> (w', Inr f)
      | (w', None) \<Rightarrow> (w', Inl (FontLoadError arialRegular)))"

subsection \<open>Group flattening, as the specification words it\<close>




subsection \<open>Sample hosts and documents\<close>

definition sampleProps :: "node_kind \<Rightarrow> props" where
  "sampleProps k =
     \<lparr>kind = k, name = [], nodeX = 0, nodeY = 0, nodeWidth = 100, nodeHeight = 100,
      fills = [], strokes = [], nodeStrokeWeight = 1, nodeRotation = 0, cornerRadius = 0,
      nodeFontName = None, characters = [], nodeFontSize = 12, ranges = [],
      textAlignHorizontal = ''LEFT'', textAlignVertical = ''TOP'',
      textAutoResize = ''WIDTH_AND_HEIGHT''\<rparr>"

text \<open>The names of the members of \<open>Object.prototype\<close> in the language standard.\<close>

definition objectPrototypeMembers :: "string list" where
  "objectPrototypeMembers =
     [''constructor'', ''hasOwnProperty'', ''isPrototypeOf'', ''propertyIsEnumerable'',
      ''toLocaleString'', ''toString'', ''valueOf'', ''__proto__'', ''__defineGetter__'',
      ''__defineSetter__'', ''__lookupGetter__'', ''__lookupSetter__'']"

text \<open>A host on which the family Inter loads in every style and nothing else does.\<close>

definition interHost :: host where
  "interHost =
     \<lparr>loadFontOk = (\<lambda>k f. family f = Named ''Inter''),
      base64Decode = (\<lambda>s. Some []),
      imageHash = (\<lambda>bs. Some ''hash''),
      newNode = sampleProps,
      inheritedMember = (\<lambda>s. s \<in> set objectPrototypeMembers)\<rparr>"

text \<open>A host without any font.\<close>

definition bareHost :: host where
  "bareHost =
     \<lparr>loadFontOk = (\<lambda>k f. False),
      base64Decode = (\<lambda>s. Some []),
      imageHash = (\<lambda>bs. Some ''hash''),
      newNode = sampleProps,
      inheritedMember = (\<lambda>s. s \<in> set objectPrototypeMembers)\<rparr>"

definition emptyWorld :: world where
  "emptyWorld =
     \<lparr>fontLog = [], created = [], console = [], parentChildren = [], page = [],
      selection = [], posted = []\<rparr>"

definition plainElem :: "string \<Rightarrow> real \<Rightarrow> real \<Rightarrow> real \<Rightarrow> real \<Rightarrow> elem" where
  "plainElem t x y width height =
     \<lparr>el_type = t, el_x = x, el_y = y, el_width = width, el_height = height,
      el_scaleX = 1, el_scaleY = 1, el_rotation = 0, el_shapeType = None,
      el_fillColor = None, el_strokeColor = None, el_strokeWeight = None, el_text = None,
      el_imageUrl = None, el_rows = None, el_rowCount = None, el_columnCount = None\<rparr>"

definition sampleRun :: "string \<Rightarrow> TextRun" where
  "sampleRun t =
     \<lparr>run_text = t, run_fontFamily = ''Helvetica'', run_fontSize = 14, run_fontWeight = 400,
      run_fontStyle = ''normal'', run_color = \<lparr>red = 0, green = 0, blue = 0\<rparr>,
      run_underline = False, run_strikethrough = False\<rparr>"

subsection \<open>Reading the scene graph\<close>

fun nodeProps :: "node \<Rightarrow> props" where
  "nodeProps (Node p cs) = p"

text \<open>A rectangle shape ten by ten units, authored with a vertical scale of two.\<close>

definition tallRect :: elem where
  "tallRect = (plainElem ''shape'' 0 0 10 10)\<lparr>el_scaleY := 2\<rparr>"

text \<open>
  The hash of the image that an entry of the image data yields: the entry is present, not
  empty, of the data URI shape, and accepted by the host's decoder and image constructor.
  An entry is usable when it yields one.
\<close>

definition entryHash :: "host \<Rightarrow> (string \<Rightarrow> string option) \<Rightarrow> string \<Rightarrow> string option" where
  "entryHash h imageData url =
     (case imageData url of
        None \<Rightarrow> None
      | Some d \<Rightarrow>
          if d = [] then None
          else
            (case matchDataUri d of
               None \<Rightarrow> None
             | Some (mime, payload) \<Rightarrow>
                 (case base64Decode h payload of
                    None \<Rightarrow> None
                  | Some bytes \<Rightarrow> imageHash h bytes)))"

definition usableEntry :: "host \<Rightarrow> (string \<Rightarrow> string option) \<Rightarrow> string \<Rightarrow> bool" where
  "usableEntry h imageData url = (entryHash h imageData url \<noteq> None)"

text \<open>A shape whose only run is a single space, and an image whose key has no entry.\<close>

definition blankTextShape :: elem where
  "blankTextShape =
     (plainElem ''shape'' 0 0 100 50)
       \<lparr>el_text := Some \<lparr>runs = [sampleRun '' ''], alignment = None\<rparr>\<rparr>"


subsection \<open>The cells of a table\<close>

text \<open>The nodes that one pass of the inner loop of \<open>createTable\<close> adds to the table frame.\<close>

definition cellNodes ::
  "host \<Rightarrow> FontName \<Rightarrow> string list list \<Rightarrow> real \<Rightarrow> real \<Rightarrow> real \<Rightarrow> real \<Rightarrow> nat \<Rightarrow> nat \<Rightarrow> node list" where
  "cellNodes h fontName rows cellWidth cellHeight padding scale row col =
     Node (cellProps cellWidth cellHeight scale row col ((newNode h RECTANGLE)\<lparr>kind := RECTANGLE\<rparr>)) [] #
     (if trim (cellTextAt rows row col) \<noteq> []
      then [Node (cellTextProps fontName (cellTextAt rows row col) cellWidth cellHeight padding
                    row col ((newNode h TEXT)\<lparr>kind := TEXT\<rparr>)) []]
      else [])"

definition isRectangle :: "node \<Rightarrow> bool" where
  "isRectangle n = (kind (nodeProps n) = RECTANGLE)"

text \<open>Position and size of a node: x, y, width, height.\<close>

definition box :: "node \<Rightarrow> real \<times> real \<times> real \<times> real" where
  "box n = (nodeX (nodeProps n), nodeY (nodeProps n), nodeWidth (nodeProps n),
            nodeHeight (nodeProps n))"

text \<open>
  The boxes of a uniform partition of a width and a height into a grid, row by row.
\<close>

definition gridBoxes :: "nat \<Rightarrow> nat \<Rightarrow> real \<Rightarrow> real \<Rightarrow> (real \<times> real \<times> real \<times> real) list" where
  "gridBoxes rowCount colCount width height =
     concat (map (\<lambda>row. map (\<lambda>col. (real col * (width / real colCount),
                                      real row * (height / real rowCount),
                                      width / real colCount,
                                      height / real rowCount))
                            [0..<colCount])
                 [0..<rowCount])"

text \<open>
  A table of two rows and three columns in a box 300 by 100, whose declared counts (5 and
  7) disagree with the grid.
\<close>

definition twoByThree :: elem where
  "twoByThree =
     (plainElem ''table'' 0 0 300 100)
       \<lparr>el_rows := Some [[''a'', ''b'', ''c''], [''d'', [], ''f'']],
        el_rowCount := Some 5, el_columnCount := Some 7\<rparr>"

subsection \<open>Children of a group\<close>

text \<open>
  The \<open>childElement\<close> that the loop of \<open>createGroup\<close> builds from a child: the child with
  the group's transformed origin, divided by the scale, added to its position.
\<close>

fun childElement :: "real \<Rightarrow> real \<Rightarrow> real \<Rightarrow> SlideElement \<Rightarrow> SlideElement" where
  "childElement x y scale (Element child grandchildren) =
     Element (child\<lparr>el_x := x / scale + el_x child, el_y := y / scale + el_y child\<rparr>) grandchildren"

text \<open>
  A shape with the text Hello, a plain rectangle, a group at (100, 50) holding a shape at
  (10, 10), and that group inside a group at (5, 5).
\<close>

definition helloShape :: elem where
  "helloShape =
     (plainElem ''shape'' 0 0 100 50)
       \<lparr>el_text := Some \<lparr>runs = [sampleRun ''Hello''], alignment = None\<rparr>\<rparr>"

definition plainRect :: SlideElement where
  "plainRect = Element (plainElem ''shape'' 10 10 30 20) None"



subsection \<open>Positions in double precision\<close>

text \<open>
  A number of the source is an IEEE 754 double, and every arithmetic operation returns
  the double nearest to the exact result, a tie going to the even significand.
  \<open>fl x\<close> is that double for the exact result \<open>x\<close>: \<open>x\<close> rounded to 53 significant bits. The
  range of the exponent is left unbounded: overflow and subnormal numbers, which the
  coordinates of a slide are far from, are not modelled.
\<close>

definition roundEven :: "real \<Rightarrow> int" where
  "roundEven x =
     (let n = \<lfloor>x\<rfloor>; r = x - of_int n
      in if r < 1 / 2 then n
         else if 1 / 2 < r then n + 1
         else if even n then n else n + 1)"

definition fl :: "real \<Rightarrow> real" where
  "fl x =
     (if x = 0 then 0
      else (let e = \<lfloor>log 2 \<bar>x\<bar>\<rfloor> - 52
            in of_int (roundEven (x / 2 powi e)) * 2 powi e))"



text \<open>
  The dispatch of \<open>createElement\<close> and the loop of \<open>createGroup\<close> with each operation on a
  position rounded, and with the materializers left out: the result lists, in the order
  of the calls, the \<open>x\<close> and \<open>y\<close> that \<open>createElement\<close> hands to \<open>createShape\<close>, \<open>createImage\<close>,
  \<open>createLine\<close> or \<open>createTable\<close> when none of them throws.
\<close>

fun createElement_double :: "SlideElement \<Rightarrow> real \<Rightarrow> (real \<times> real) list"
and createGroup_double :: "SlideElement list option \<Rightarrow> real \<Rightarrow> real \<Rightarrow> real \<Rightarrow> (real \<times> real) list"
and createGroupLoop_double :: "SlideElement list \<Rightarrow> real \<Rightarrow> real \<Rightarrow> real \<Rightarrow> (real \<times> real) list"
where
  "createElement_double (Element element children) scale =
     (let x = fl (el_x element * scale);
          y = fl (el_y element * scale)
      in if el_type element = ''shape'' then [(x, y)]
         else if el_type element = ''image'' then [(x, y)]
         else if el_type element = ''line'' then [(x, y)]
         else if el_type element = ''table'' then [(x, y)]
         else if el_type element = ''group'' then createGroup_double children x y scale
         else [])"
| "createGroup_double None x y scale = []"
| "createGroup_double (Some children) x y scale =
     (if children = [] then [] else createGroupLoop_double children x y scale)"
| "createGroupLoop_double [] x y scale = []"
| "createGroupLoop_double (Element child grandchildren # rest) x y scale =
     createElement_double
       (Element (child\<lparr>el_x := fl (fl (x / scale) + el_x child),
                       el_y := fl (fl (y / scale) + el_y child)\<rparr>)
                grandchildren)
       scale @
     createGroupLoop_double rest x y scale"

subsection \<open>Events of an import\<close>

text \<open>The progress event of the slide with index \<open>i\<close> (from 0) among \<open>totalSlides\<close>.\<close>

definition progressEvent :: "nat \<Rightarrow> nat \<Rightarrow> ui_msg" where
  "progressEvent totalSlides i =
     ProgressMsg (60 + (real i / real totalSlides) * 35)
       (''Creating slide '' @ showNat (i + 1) @ '' of '' @ showNat totalSlides @ ''...'')"

fun percent :: "ui_msg \<Rightarrow> real" where
  "percent (ProgressMsg p t) = p"
| "percent (ErrorMsg m) = 0"
| "percent (CompleteMsg n) = 0"

definition isFrame :: "node \<Rightarrow> bool" where
  "isFrame n = (kind (nodeProps n) = FRAME)"

text \<open>A presentation of two slides: a rectangle, and a shape with the text Hello.\<close>

definition twoSlides :: Presentation where
  "twoSlides =
     \<lparr>pres_title = ''Deck'', pres_pageWidth = Some 9144000, pres_pageHeight = Some 5143500,
      pres_slides =
        [\<lparr>slide_index = 0, slide_elements = [plainRect]\<rparr>,
         \<lparr>slide_index = 1, slide_elements = [Element helloShape None]\<rparr>]\<rparr>"

section \<open>The font resolver\<close>

subsection \<open>The resolver walks the ladder\<close>


lemma firstLoadable_append:
  "firstLoadable av k (xs @ ys) =
     (case firstLoadable av k xs of
        (tried, Some f) \<Rightarrow> (tried, Some f)
      | (tried, None) \<Rightarrow>
          (case firstLoadable av (k + length xs) ys of (tried2, r) \<Rightarrow> (tried @ tried2, r)))"
  by (induction xs arbitrary: k) (auto split: prod.splits option.splits)

lemma firstLoadable_None_tried:
  "firstLoadable av k xs = (tried, None) \<Longrightarrow> tried = xs"
  by (induction xs arbitrary: k tried) (auto split: prod.splits if_splits)

lemma firstLoadable_None_iff:
  "(snd (firstLoadable av k xs) = None) = (\<forall>i < length xs. \<not> av (k + i) (xs ! i))"
proof (induction xs arbitrary: k)
  case Nil
  show ?case by simp
next
  case (Cons x xs)
  have "(\<forall>i < Suc (length xs). \<not> av (k + i) ((x # xs) ! i)) =
        (\<not> av k x \<and> (\<forall>i < length xs. \<not> av (Suc k + i) (xs ! i)))"
    by (auto simp: less_Suc_eq_0_disj)
  moreover obtain tr r where "firstLoadable av (Suc k) xs = (tr, r)"
    by (cases "firstLoadable av (Suc k) xs")
  ultimately show ?case
    using Cons.IH [of "Suc k"] by simp
qed

lemma firstLoadable_prefix:
  "firstLoadable av k xs = (tried, r) \<Longrightarrow>
     \<exists>n \<le> length xs. tried = take n xs \<and> (\<forall>i. Suc i < n \<longrightarrow> \<not> av (k + i) (xs ! i)) \<and>
        (case r of
           Some f \<Rightarrow> 0 < n \<and> f = xs ! (n - 1) \<and> av (k + (n - 1)) f
         | None \<Rightarrow> n = length xs)"
proof (induction xs arbitrary: k tried r)
  case Nil
  then show ?case by simp
next
  case (Cons x xs)
  show ?case
  proof (cases "av k x")
    case True
    with Cons.prems have "tried = [x]" "r = Some x" by auto
    with True show ?thesis
      by (intro exI [of _ 1]) simp
  next
    case False
    obtain tr r' where fl: "firstLoadable av (Suc k) xs = (tr, r')"
      by (cases "firstLoadable av (Suc k) xs")
    with False Cons.prems have eq: "tried = x # tr" "r = r'" by auto
    from Cons.IH [OF fl] obtain n where n: "n \<le> length xs" "tr = take n xs"
      "\<forall>i. Suc i < n \<longrightarrow> \<not> av (Suc k + i) (xs ! i)"
      "case r' of Some f \<Rightarrow> 0 < n \<and> f = xs ! (n - 1) \<and> av (Suc k + (n - 1)) f
               | None \<Rightarrow> n = length xs"
      by blast
    have a: "\<forall>i. Suc i < Suc n \<longrightarrow> \<not> av (k + i) ((x # xs) ! i)"
    proof (intro allI impI)
      fix i assume "Suc i < Suc n"
      then show "\<not> av (k + i) ((x # xs) ! i)"
        using False n(3) by (cases i) auto
    qed
    have b: "case r of Some f \<Rightarrow> 0 < Suc n \<and> f = (x # xs) ! (Suc n - 1) \<and> av (k + (Suc n - 1)) f
               | None \<Rightarrow> Suc n = length (x # xs)"
      using n(4) eq(2) by (cases r') (auto simp: nth_Cons split: nat.splits)
    show ?thesis
      using n(1,2) eq a b by (intro exI [of _ "Suc n"]) simp
  qed
qed

lemma tryInOrder_Nil: "tryInOrder h [] w = (w, None)"
  by (simp add: tryInOrder_def)

lemma tryInOrder_append:
  "tryInOrder h (xs @ ys) w =
     (case tryInOrder h xs w of
        (w1, Some f) \<Rightarrow> (w1, Some f)
      | (w1, None) \<Rightarrow> tryInOrder h ys w1)"
proof -
  obtain tr r where fl: "firstLoadable (loadFontOk h) (length (fontLog w)) xs = (tr, r)"
    by (cases "firstLoadable (loadFontOk h) (length (fontLog w)) xs")
  show ?thesis
  proof (cases r)
    case (Some f)
    with fl show ?thesis
      by (simp add: tryInOrder_def firstLoadable_append)
  next
    case None
    with fl have "tr = xs"
      by (simp add: firstLoadable_None_tried)
    with fl None show ?thesis
      by (simp add: tryInOrder_def firstLoadable_append split: prod.splits)
  qed
qed

lemma tryFamily_tryInOrder:
  "tryFamily h fam (fontStyle_of wt it) wt it w = tryInOrder h (rung fam wt it) w"
  by (simp add: tryFamily_def rung_def loadFontAsync_def Let_def tryInOrder_def)

lemma tryFallbacks_tryInOrder:
  "tryFallbacks h fams (fontStyle_of wt it) wt it w =
     tryInOrder h (concat (map (\<lambda>fam. rung (Named fam) wt it) fams)) w"
proof (induction fams arbitrary: w)
  case Nil
  show ?case by (simp add: tryInOrder_Nil)
next
  case (Cons fam fams)
  show ?case
    by (simp add: tryFamily_tryInOrder tryInOrder_append Cons.IH split: prod.splits option.splits)
qed

lemma lastResort_tryInOrder:
  "(case loadFontAsync h interRegular w3 of
      (w4, Inr _) \<Rightarrow> (w4, Inr interRegular)
    | (w4, Inl _) \<Rightarrow>
        (case loadFontAsync h arialRegular w4 of
           (w5, Inr _) \<Rightarrow> (w5, Inr arialRegular)
         | (w5, Inl e) \<Rightarrow> (w5, Inl e))) =
   (case tryInOrder h [interRegular, arialRegular] w3 of
      (w', Some f) \<Rightarrow> (w', Inr f)
    | (w', None) \<Rightarrow> (w', Inl (FontLoadError arialRegular)))"
  by (simp add: loadFontAsync_def tryInOrder_def)

lemma categoryCandidates_fallbackList: "categoryCandidates fam = fallbackList fam"
  by (simp add: categoryCandidates_def fallbackList_def isMono_def isSerif_def)

lemma loadFont_runLadder:
  "loadFont h fam wt it w = runLadder h (ladder h fam wt it) w"
  unfolding loadFont_def runLadder_def ladder_def exactAndMapped_def Let_def
    lastResort_tryInOrder tryFamily_tryInOrder tryFallbacks_tryInOrder
    categoryCandidates_fallbackList
  by (simp add: tryInOrder_append tryInOrder_Nil split: prod.splits option.splits)

lemma length_rung: "length (rung fam wt it) \<le> 2"
  by (simp add: rung_def)

lemma length_ladder: "length (ladder h fam wt it) \<le> 12"
proof -
  have a: "length (exactAndMapped h fam wt it) \<le> 4"
    using length_rung [of "Named fam" wt it]
    by (auto simp: exactAndMapped_def split: option.splits
          intro: order_trans [OF add_mono [OF length_rung length_rung]])
  have b: "length (concat (map (\<lambda>f. rung (Named f) wt it) (categoryCandidates fam))) \<le> 6"
    by (simp add: categoryCandidates_def rung_def)
  show ?thesis
    using a b by (simp add: ladder_def)
qed

lemma ladder_last_two:
  "drop (length (ladder h fam wt it) - 2) (ladder h fam wt it) = [interRegular, arialRegular]"
  by (simp add: ladder_def)


lemma loadFont_firstLoadable:
  "firstLoadable (loadFontOk h) (length (fontLog w)) (ladder h fam wt it) = (tr, r) \<Longrightarrow>
   loadFont h fam wt it w =
     (w\<lparr>fontLog := fontLog w @ tr\<rparr>,
      case r of Some f \<Rightarrow> Inr f | None \<Rightarrow> Inl (FontLoadError arialRegular))"
  by (simp add: loadFont_runLadder runLadder_def tryInOrder_def split: option.splits)

lemma firstLoadable_never:
  "firstLoadable (\<lambda>k f. False) k xs = (xs, None)"
  by (induction xs arbitrary: k) simp_all

lemma loadFont_bareHost:
  "loadFont bareHost fam wt it w =
     (w\<lparr>fontLog := fontLog w @ ladder bareHost fam wt it\<rparr>, Inl (FontLoadError arialRegular))"
proof -
  have "firstLoadable (loadFontOk bareHost) (length (fontLog w)) (ladder bareHost fam wt it) =
          (ladder bareHost fam wt it, None)"
    by (simp add: bareHost_def firstLoadable_never)
  from loadFont_firstLoadable [OF this] show ?thesis by simp
qed

lemma ladder_Roboto_800:
  "ladder h ''Roboto'' 800 False =
     [\<lparr>family = Named ''Roboto'', style = ''Bold''\<rparr>, \<lparr>family = Named ''Inter'', style = ''Bold''\<rparr>,
      \<lparr>family = Named ''Inter'', style = ''Bold''\<rparr>, \<lparr>family = Named ''Roboto'', style = ''Bold''\<rparr>,
      \<lparr>family = Named ''Arial'', style = ''Bold''\<rparr>, interRegular, arialRegular]"
  by (simp add: ladder_def exactAndMapped_def rung_def FONT_FALLBACKS_def fontFallbackEntries_def
        categoryCandidates_def regexTestCI_def toLower_def fontStyle_of_def)

text \<open>
  A family named as a member that the table inherits has that member as its mapped
  family: the ladder then holds a rung whose family is no name.
\<close>

lemma ladder_constructor:
  "ladder bareHost ''constructor'' 400 False =
     [\<lparr>family = Named ''constructor'', style = ''Regular''\<rparr>,
      \<lparr>family = Inherited ''constructor'', style = ''Regular''\<rparr>,
      \<lparr>family = Named ''Inter'', style = ''Regular''\<rparr>,
      \<lparr>family = Named ''Roboto'', style = ''Regular''\<rparr>,
      \<lparr>family = Named ''Arial'', style = ''Regular''\<rparr>, interRegular, arialRegular]"
  by (simp add: ladder_def exactAndMapped_def rung_def FONT_FALLBACKS_def fontFallbackEntries_def
        bareHost_def objectPrototypeMembers_def categoryCandidates_def regexTestCI_def toLower_def
        fontStyle_of_def)

text \<open>
  C2. Whatever family, weight and italic flag are asked for, and whatever the host answers
  (the mapped family being the entry of the fallback table or, for a family named as a
  member that the table inherits, that member):
  the loads attempted are an initial stretch of the ladder, in the ladder's order, each
  made only after all earlier ones failed, and at most twelve of them; when some rung of
  the ladder loads at the moment it is tried, a font is returned and nothing is thrown;
  and when an error is thrown, it is the failure of Arial Regular, the last rung, after
  every rung (Inter Regular, the rung before, among them) failed.
\<close>

theorem loadFont_walks_ladder:
  "case loadFont h fam wt it w of
     (w', res) \<Rightarrow>
       length (ladder h fam wt it) \<le> 12 \<and>
       (\<exists>n \<le> length (ladder h fam wt it).
           w' = w\<lparr>fontLog := fontLog w @ take n (ladder h fam wt it)\<rparr> \<and>
           (\<forall>i. Suc i < n \<longrightarrow> \<not> loadFontOk h (length (fontLog w) + i) (ladder h fam wt it ! i))) \<and>
       ((\<exists>i < length (ladder h fam wt it).
            loadFontOk h (length (fontLog w) + i) (ladder h fam wt it ! i))
          \<longrightarrow> (\<exists>f. res = Inr f)) \<and>
       (\<forall>e. res = Inl e \<longrightarrow>
          e = FontLoadError arialRegular \<and>
          fontLog w' = fontLog w @ ladder h fam wt it \<and>
          drop (length (ladder h fam wt it) - 2) (ladder h fam wt it) = [interRegular, arialRegular] \<and>
          (\<forall>i < length (ladder h fam wt it).
              \<not> loadFontOk h (length (fontLog w) + i) (ladder h fam wt it ! i)))"
proof -
  obtain tr r where fl:
    "firstLoadable (loadFontOk h) (length (fontLog w)) (ladder h fam wt it) = (tr, r)"
    by (cases "firstLoadable (loadFontOk h) (length (fontLog w)) (ladder h fam wt it)")
  from firstLoadable_prefix [OF fl] obtain n where n:
    "n \<le> length (ladder h fam wt it)" "tr = take n (ladder h fam wt it)"
    "\<forall>i. Suc i < n \<longrightarrow> \<not> loadFontOk h (length (fontLog w) + i) (ladder h fam wt it ! i)"
    "case r of Some f \<Rightarrow> 0 < n \<and> f = ladder h fam wt it ! (n - 1) \<and>
                         loadFontOk h (length (fontLog w) + (n - 1)) f
             | None \<Rightarrow> n = length (ladder h fam wt it)"
    by blast
  have none: "(r = None) =
      (\<forall>i < length (ladder h fam wt it). \<not> loadFontOk h (length (fontLog w) + i) (ladder h fam wt it ! i))"
    using firstLoadable_None_iff [of "loadFontOk h" "length (fontLog w)" "ladder h fam wt it"] fl
    by simp
  have w': "fst (loadFont h fam wt it w) = w\<lparr>fontLog := fontLog w @ take n (ladder h fam wt it)\<rparr>"
    using fl n(2) by (simp add: loadFont_runLadder runLadder_def tryInOrder_def split: option.splits)
  have res: "snd (loadFont h fam wt it w) =
      (case r of Some f \<Rightarrow> Inr f | None \<Rightarrow> Inl (FontLoadError arialRegular))"
    using fl by (simp add: loadFont_runLadder runLadder_def tryInOrder_def split: option.splits)
  have p2: "\<exists>m \<le> length (ladder h fam wt it).
           fst (loadFont h fam wt it w) = w\<lparr>fontLog := fontLog w @ take m (ladder h fam wt it)\<rparr> \<and>
           (\<forall>i. Suc i < m \<longrightarrow> \<not> loadFontOk h (length (fontLog w) + i) (ladder h fam wt it ! i))"
    using n(1,3) w' by blast
  have p3: "(\<exists>i < length (ladder h fam wt it).
            loadFontOk h (length (fontLog w) + i) (ladder h fam wt it ! i))
          \<longrightarrow> (\<exists>f. snd (loadFont h fam wt it w) = Inr f)"
    using none res by (cases r) auto
  have p4: "\<forall>e. snd (loadFont h fam wt it w) = Inl e \<longrightarrow>
          e = FontLoadError arialRegular \<and>
          fontLog (fst (loadFont h fam wt it w)) = fontLog w @ ladder h fam wt it \<and>
          drop (length (ladder h fam wt it) - 2) (ladder h fam wt it) = [interRegular, arialRegular] \<and>
          (\<forall>i < length (ladder h fam wt it).
              \<not> loadFontOk h (length (fontLog w) + i) (ladder h fam wt it ! i))"
  proof (cases r)
    case None
    with n(4) have "n = length (ladder h fam wt it)" by simp
    with None none res w' show ?thesis
      by (simp add: ladder_last_two)
  next
    case (Some f)
    with res show ?thesis by simp
  qed
  show ?thesis
    using p2 p3 p4 length_ladder [of h fam wt it]
    by (cases "loadFont h fam wt it w") simp
qed


theorem loadFont_walks_ladder_witness:
  "(\<exists>i < length (ladder interHost ''Roboto'' 800 False).
       loadFontOk interHost (length (fontLog emptyWorld) + i) (ladder interHost ''Roboto'' 800 False ! i)) \<and>
   (\<exists>f. snd (loadFont interHost ''Roboto'' 800 False emptyWorld) = Inr f) \<and>
   snd (loadFont bareHost ''Roboto'' 800 False emptyWorld) = Inl (FontLoadError arialRegular) \<and>
   fontLog (fst (loadFont bareHost ''Roboto'' 800 False emptyWorld)) =
     fontLog emptyWorld @ ladder bareHost ''Roboto'' 800 False \<and>
   snd (loadFont bareHost ''constructor'' 400 False emptyWorld) = Inl (FontLoadError arialRegular) \<and>
   fontLog (fst (loadFont bareHost ''constructor'' 400 False emptyWorld)) =
     [\<lparr>family = Named ''constructor'', style = ''Regular''\<rparr>,
      \<lparr>family = Inherited ''constructor'', style = ''Regular''\<rparr>,
      \<lparr>family = Named ''Inter'', style = ''Regular''\<rparr>,
      \<lparr>family = Named ''Roboto'', style = ''Regular''\<rparr>,
      \<lparr>family = Named ''Arial'', style = ''Regular''\<rparr>, interRegular, arialRegular]"
proof -
  have hyp: "\<exists>i < length (ladder interHost ''Roboto'' 800 False).
       loadFontOk interHost (length (fontLog emptyWorld) + i) (ladder interHost ''Roboto'' 800 False ! i)"
    by (rule exI [of _ 1]) (simp add: ladder_Roboto_800 interHost_def)
  obtain w1 r1 where e1: "loadFont interHost ''Roboto'' 800 False emptyWorld = (w1, r1)"
    by (cases "loadFont interHost ''Roboto'' 800 False emptyWorld")
  have "(\<exists>i < length (ladder interHost ''Roboto'' 800 False).
            loadFontOk interHost (length (fontLog emptyWorld) + i) (ladder interHost ''Roboto'' 800 False ! i))
          \<longrightarrow> (\<exists>f. r1 = Inr f)"
    using loadFont_walks_ladder [where h = interHost and fam = "''Roboto''" and wt = 800
        and it = False and w = emptyWorld]
    unfolding e1 by (elim case_prodE conjE) simp
  with hyp e1 have inter: "\<exists>f. snd (loadFont interHost ''Roboto'' 800 False emptyWorld) = Inr f"
    by simp
  have bare: "snd (loadFont bareHost ''Roboto'' 800 False emptyWorld) = Inl (FontLoadError arialRegular)"
    by (simp add: loadFont_runLadder runLadder_def tryInOrder_def ladder_Roboto_800
          bareHost_def emptyWorld_def interRegular_def arialRegular_def)
  obtain w2 r2 where e2: "loadFont bareHost ''Roboto'' 800 False emptyWorld = (w2, r2)"
    by (cases "loadFont bareHost ''Roboto'' 800 False emptyWorld")
  have "\<forall>e. r2 = Inl e \<longrightarrow> fontLog w2 = fontLog emptyWorld @ ladder bareHost ''Roboto'' 800 False"
    using loadFont_walks_ladder [where h = bareHost and fam = "''Roboto''" and wt = 800
        and it = False and w = emptyWorld]
    unfolding e2 by (elim case_prodE conjE) simp
  with bare e2 have log: "fontLog (fst (loadFont bareHost ''Roboto'' 800 False emptyWorld)) =
          fontLog emptyWorld @ ladder bareHost ''Roboto'' 800 False"
    by simp
  have bare3: "snd (loadFont bareHost ''constructor'' 400 False emptyWorld) =
      Inl (FontLoadError arialRegular)"
    by (simp add: loadFont_bareHost)
  obtain w3 r3 where e3: "loadFont bareHost ''constructor'' 400 False emptyWorld = (w3, r3)"
    by (cases "loadFont bareHost ''constructor'' 400 False emptyWorld")
  have "\<forall>e. r3 = Inl e \<longrightarrow>
      fontLog w3 = fontLog emptyWorld @ ladder bareHost ''constructor'' 400 False"
    using loadFont_walks_ladder [where h = bareHost and fam = "''constructor''" and wt = 400
        and it = False and w = emptyWorld]
    unfolding e3 by (elim case_prodE conjE) simp
  with bare3 e3 have log3: "fontLog (fst (loadFont bareHost ''constructor'' 400 False emptyWorld)) =
     [\<lparr>family = Named ''constructor'', style = ''Regular''\<rparr>,
      \<lparr>family = Inherited ''constructor'', style = ''Regular''\<rparr>,
      \<lparr>family = Named ''Inter'', style = ''Regular''\<rparr>,
      \<lparr>family = Named ''Roboto'', style = ''Regular''\<rparr>,
      \<lparr>family = Named ''Arial'', style = ''Regular''\<rparr>, interRegular, arialRegular]"
    by (simp add: ladder_constructor emptyWorld_def)
  show ?thesis
    by (intro conjI) (fact hyp, fact inter, fact bare, fact log, fact bare3, fact log3)
qed

subsection \<open>The style asked for and the style returned\<close>

lemma firstLoadable_hit:
  assumes "\<exists>i < length xs. av (k + i) (xs ! i)"
  shows "\<exists>tried f. firstLoadable av k (xs @ ys) = (tried, Some f) \<and> f \<in> set xs"
proof -
  obtain tr r where fl: "firstLoadable av k xs = (tr, r)"
    by (cases "firstLoadable av k xs")
  from assms firstLoadable_None_iff [of av k xs] fl obtain f where r: "r = Some f"
    by (cases r) auto
  from firstLoadable_prefix [OF fl] r obtain n where
    "n \<le> length xs" "0 < n" "f = xs ! (n - 1)"
    by auto
  then have "f \<in> set xs" by simp
  with fl r show ?thesis
    by (simp add: firstLoadable_append)
qed

lemma rung_member:
  "f \<in> set (rung fm wt it) \<Longrightarrow>
     family f = fm \<and> (style f = fontStyle_of wt it \<or> it \<and> style f = fallbackStyle wt)"
  by (auto simp: rung_def split: if_splits)

lemma exactAndMapped_member:
  "f \<in> set (exactAndMapped h fam wt it) \<Longrightarrow>
     (family f = Named fam \<or> FONT_FALLBACKS h fam = Some (family f)) \<and>
     (style f = fontStyle_of wt it \<or> it \<and> style f = fallbackStyle wt)"
  by (auto simp: exactAndMapped_def dest: rung_member split: option.splits)

lemma style_keeps_weight:
  "style f = fontStyle_of wt it \<or> it \<and> style f = fallbackStyle wt \<Longrightarrow>
     (700 \<le> wt) = (style f = ''Bold'' \<or> style f = ''Bold Italic'')"
  by (auto simp: fontStyle_of_def fallbackStyle_def split: if_splits)

lemma ladder_nonempty_hd:
  "ladder h fam wt it = \<lparr>family = Named fam, style = fontStyle_of wt it\<rparr> # tl (ladder h fam wt it)"
  by (simp add: ladder_def exactAndMapped_def rung_def)

lemma loadFont_first_request:
  "fontLog (fst (loadFont h fam wt it w)) ! length (fontLog w) =
     \<lparr>family = Named fam, style = fontStyle_of wt it\<rparr>"
proof -
  obtain tr r where fl:
    "firstLoadable (loadFontOk h) (length (fontLog w)) (ladder h fam wt it) = (tr, r)"
    by (cases "firstLoadable (loadFontOk h) (length (fontLog w)) (ladder h fam wt it)")
  have "\<exists>tr'. tr = \<lparr>family = Named fam, style = fontStyle_of wt it\<rparr> # tr'"
    using fl by (subst (asm) ladder_nonempty_hd) (auto split: if_splits prod.splits)
  then show ?thesis
    using loadFont_firstLoadable [OF fl] by (auto simp: nth_append)
qed

text \<open>
  C3. The first font the resolver asks the host for is the requested family in the style
  derived from the weight and the italic flag: Bold Italic for a weight of 700 or more
  with italic, Bold for a weight of 700 or more, Italic for italic, Regular otherwise.
  When a rung of the exact or the mapped family loads, the font returned has that family
  and the derived style, or that style without the italic when italic was asked; it is a
  bold style exactly when the weight is 700 or more. For Roboto at weight 800, not
  italic: when Roboto Bold fails and Inter Bold then loads, Inter Bold is returned.
\<close>

theorem loadFont_style:
  "fontLog (fst (loadFont h fam wt it w)) ! length (fontLog w) =
     \<lparr>family = Named fam,
      style = (if wt \<ge> 700 \<and> it then ''Bold Italic''
               else if wt \<ge> 700 then ''Bold''
               else if it then ''Italic''
               else ''Regular'')\<rparr> \<and>
   ((\<exists>i < length (exactAndMapped h fam wt it).
        loadFontOk h (length (fontLog w) + i) (exactAndMapped h fam wt it ! i)) \<longrightarrow>
    (\<exists>f. snd (loadFont h fam wt it w) = Inr f \<and>
         (family f = Named fam \<or> FONT_FALLBACKS h fam = Some (family f)) \<and>
         (style f = fontStyle_of wt it \<or> it \<and> style f = fallbackStyle wt) \<and>
         ((700 \<le> wt) = (style f = ''Bold'' \<or> style f = ''Bold Italic'')))) \<and>
   (\<not> loadFontOk h (length (fontLog w)) \<lparr>family = Named ''Roboto'', style = ''Bold''\<rparr> \<and>
    loadFontOk h (Suc (length (fontLog w))) \<lparr>family = Named ''Inter'', style = ''Bold''\<rparr> \<longrightarrow>
    snd (loadFont h ''Roboto'' 800 False w) = Inr \<lparr>family = Named ''Inter'', style = ''Bold''\<rparr>)"
proof (intro conjI impI)
  show "fontLog (fst (loadFont h fam wt it w)) ! length (fontLog w) =
     \<lparr>family = Named fam,
      style = (if wt \<ge> 700 \<and> it then ''Bold Italic''
               else if wt \<ge> 700 then ''Bold''
               else if it then ''Italic''
               else ''Regular'')\<rparr>"
    using loadFont_first_request [of h fam wt it w] by (simp add: fontStyle_of_def)
next
  assume "\<exists>i < length (exactAndMapped h fam wt it).
        loadFontOk h (length (fontLog w) + i) (exactAndMapped h fam wt it ! i)"
  from firstLoadable_hit [OF this] obtain tried f where
    fl: "firstLoadable (loadFontOk h) (length (fontLog w)) (ladder h fam wt it) = (tried, Some f)"
    and mem: "f \<in> set (exactAndMapped h fam wt it)"
    unfolding ladder_def by blast
  from loadFont_firstLoadable [OF fl] have "snd (loadFont h fam wt it w) = Inr f"
    by simp
  with exactAndMapped_member [OF mem] style_keeps_weight [of f wt it]
  show "\<exists>f. snd (loadFont h fam wt it w) = Inr f \<and>
         (family f = Named fam \<or> FONT_FALLBACKS h fam = Some (family f)) \<and>
         (style f = fontStyle_of wt it \<or> it \<and> style f = fallbackStyle wt) \<and>
         ((700 \<le> wt) = (style f = ''Bold'' \<or> style f = ''Bold Italic''))"
    by blast
next
  assume "\<not> loadFontOk h (length (fontLog w)) \<lparr>family = Named ''Roboto'', style = ''Bold''\<rparr> \<and>
    loadFontOk h (Suc (length (fontLog w))) \<lparr>family = Named ''Inter'', style = ''Bold''\<rparr>"
  then show "snd (loadFont h ''Roboto'' 800 False w) = Inr \<lparr>family = Named ''Inter'', style = ''Bold''\<rparr>"
    by (simp add: loadFont_runLadder runLadder_def tryInOrder_def ladder_Roboto_800)
qed

theorem loadFont_style_witness:
  "(\<exists>i < length (exactAndMapped interHost ''Roboto'' 800 False).
        loadFontOk interHost (length (fontLog emptyWorld) + i)
          (exactAndMapped interHost ''Roboto'' 800 False ! i)) \<and>
   \<not> loadFontOk interHost (length (fontLog emptyWorld)) \<lparr>family = Named ''Roboto'', style = ''Bold''\<rparr> \<and>
   loadFontOk interHost (Suc (length (fontLog emptyWorld))) \<lparr>family = Named ''Inter'', style = ''Bold''\<rparr> \<and>
   snd (loadFont interHost ''Roboto'' 800 False emptyWorld) = Inr \<lparr>family = Named ''Inter'', style = ''Bold''\<rparr>"
proof -
  have em: "exactAndMapped h ''Roboto'' 800 False =
      [\<lparr>family = Named ''Roboto'', style = ''Bold''\<rparr>, \<lparr>family = Named ''Inter'', style = ''Bold''\<rparr>]" for h
    by (simp add: exactAndMapped_def rung_def FONT_FALLBACKS_def fontFallbackEntries_def fontStyle_of_def)
  have h1: "\<exists>i < length (exactAndMapped interHost ''Roboto'' 800 False).
        loadFontOk interHost (length (fontLog emptyWorld) + i)
          (exactAndMapped interHost ''Roboto'' 800 False ! i)"
    by (rule exI [of _ 1]) (simp add: em interHost_def)
  have h2: "\<not> loadFontOk interHost (length (fontLog emptyWorld)) \<lparr>family = Named ''Roboto'', style = ''Bold''\<rparr> \<and>
   loadFontOk interHost (Suc (length (fontLog emptyWorld))) \<lparr>family = Named ''Inter'', style = ''Bold''\<rparr>"
    by (simp add: interHost_def)
  from h2 loadFont_style [where h = interHost and fam = "''Roboto''" and wt = 800 and it = False
      and w = emptyWorld]
  have "snd (loadFont interHost ''Roboto'' 800 False emptyWorld) = Inr \<lparr>family = Named ''Inter'', style = ''Bold''\<rparr>"
    by (elim conjE) blast
  with h1 h2 show ?thesis by blast
qed

section \<open>The scene builder\<close>

subsection \<open>What the materializers leave alone\<close>

lemma loadFont_world:
  "loadFont h fam wt it w = (w', r) \<Longrightarrow> w' = w\<lparr>fontLog := fontLog w'\<rparr>"
proof -
  assume a: "loadFont h fam wt it w = (w', r)"
  obtain tr r0 where fl:
    "firstLoadable (loadFontOk h) (length (fontLog w)) (ladder h fam wt it) = (tr, r0)"
    by (cases "firstLoadable (loadFontOk h) (length (fontLog w)) (ladder h fam wt it)")
  from loadFont_firstLoadable [OF fl] a show ?thesis by auto
qed

lemma loadFont_fields:
  assumes "loadFont h fam wt it w = (w', r)"
  shows "parentChildren w' = parentChildren w" "created w' = created w"
    "console w' = console w" "page w' = page w" "selection w' = selection w"
    "posted w' = posted w"
proof -
  have e: "w' = w\<lparr>fontLog := fontLog w'\<rparr>"
    using assms by (rule loadFont_world)
  show "parentChildren w' = parentChildren w" by (subst e) simp
  show "created w' = created w" by (subst e) simp
  show "console w' = console w" by (subst e) simp
  show "page w' = page w" by (subst e) simp
  show "selection w' = selection w" by (subst e) simp
  show "posted w' = posted w" by (subst e) simp
qed

lemma formatRuns_fields:
  "formatRuns h scale rs k n w = (n', w') \<Longrightarrow>
     parentChildren w' = parentChildren w \<and> created w' = created w \<and> page w' = page w \<and>
     selection w' = selection w \<and> posted w' = posted w"
proof (induction rs arbitrary: k n w)
  case Nil
  then show ?case by simp
next
  case (Cons run rs)
  show ?case
  proof (cases "length (run_text run) = 0")
    case True
    with Cons.prems have "formatRuns h scale rs k n w = (n', w')" by simp
    from Cons.IH [OF this] show ?thesis .
  next
    case False
    obtain w1 r where lf: "loadFont h (run_fontFamily run) (run_fontWeight run)
                             (run_fontStyle run = ''italic'') w = (w1, r)"
      by (cases "loadFont h (run_fontFamily run) (run_fontWeight run)
                             (run_fontStyle run = ''italic'') w")
    note f = loadFont_fields [OF lf]
    show ?thesis
    proof (cases r)
      case (Inl err)
      with False lf Cons.prems
      have "formatRuns h scale rs (k + length (run_text run)) n
              (consoleError (FailedToApplyTextFormatting err) w1) = (n', w')"
        by (simp add: Let_def)
      from Cons.IH [OF this] f show ?thesis
        by (simp add: consoleError_def)
    next
      case (Inr fontName)
      with False lf Cons.prems obtain n1 where
        "formatRuns h scale rs (k + length (run_text run)) n1 w1 = (n', w')"
        by (simp add: Let_def)
      from Cons.IH [OF this] f show ?thesis
        by simp
    qed
  qed
qed

lemma createTextForShape_none:
  "el_text e = None \<Longrightarrow> createTextForShape h e x y width height scale w = (w, Inr ())"
  by (simp add: createTextForShape_def)

lemma createTextForShape_no_runs:
  "el_text e = Some tc \<Longrightarrow> runs tc = [] \<Longrightarrow>
     createTextForShape h e x y width height scale w = (w, Inr ())"
  by (simp add: createTextForShape_def)

lemma createTextForShape_blank:
  "el_text e = Some tc \<Longrightarrow> trim (concat (map run_text (runs tc))) = [] \<Longrightarrow>
     createTextForShape h e x y width height scale w = (w, Inr ())"
  by (simp add: createTextForShape_def Let_def)

lemma createTextForShape_throws:
  "el_text e = Some tc \<Longrightarrow> runs tc \<noteq> [] \<Longrightarrow> trim (concat (map run_text (runs tc))) \<noteq> [] \<Longrightarrow>
   loadFont h (run_fontFamily (hd (runs tc))) (run_fontWeight (hd (runs tc)))
     (run_fontStyle (hd (runs tc)) = ''italic'') (w\<lparr>created := created w @ [TEXT]\<rparr>) = (w1, Inl err) \<Longrightarrow>
   createTextForShape h e x y width height scale w = (w1, Inl err)"
  by (simp add: createTextForShape_def Let_def figmaCreate_def)

lemma createTextForShape_appends:
  "el_text e = Some tc \<Longrightarrow> runs tc \<noteq> [] \<Longrightarrow> trim (concat (map run_text (runs tc))) \<noteq> [] \<Longrightarrow>
   loadFont h (run_fontFamily (hd (runs tc))) (run_fontWeight (hd (runs tc)))
     (run_fontStyle (hd (runs tc)) = ''italic'') (w\<lparr>created := created w @ [TEXT]\<rparr>)
     = (w1, Inr defaultFont) \<Longrightarrow>
   formatRuns h scale (runs tc) 0
     (withDefaultFont tc scale defaultFont ((newNode h TEXT)\<lparr>kind := TEXT\<rparr>)) w1 = (n2, w2) \<Longrightarrow>
   createTextForShape h e x y width height scale w =
     (appendChild (Node (layoutTextBox e tc x y width height scale n2) []) w2, Inr ())"
  by (simp add: createTextForShape_def Let_def figmaCreate_def)

lemma createTextForShape_fields:
  assumes "createTextForShape h e x y width height scale w = (w', r)"
  shows "(\<exists>ns. parentChildren w' = parentChildren w @ ns) \<and> page w' = page w \<and>
     selection w' = selection w \<and> posted w' = posted w"
proof (cases "el_text e")
  case None
  from createTextForShape_none [OF this] assms show ?thesis by simp
next
  case (Some tc)
  show ?thesis
  proof (cases "runs tc = []")
    case True
    from createTextForShape_no_runs [OF Some this] assms show ?thesis by simp
  next
    case nonempty: False
    show ?thesis
    proof (cases "trim (concat (map run_text (runs tc))) = []")
      case True
      from createTextForShape_blank [OF Some this] assms show ?thesis by simp
    next
      case nonblank: False
      obtain w1 r1 where lf:
        "loadFont h (run_fontFamily (hd (runs tc))) (run_fontWeight (hd (runs tc)))
           (run_fontStyle (hd (runs tc)) = ''italic'') (w\<lparr>created := created w @ [TEXT]\<rparr>) = (w1, r1)"
        by (rule prod.exhaust)
      note f = loadFont_fields [OF lf]
      show ?thesis
      proof (cases r1)
        case (Inl err)
        from createTextForShape_throws [OF Some nonempty nonblank lf [unfolded Inl]] assms
        have "w' = w1" by simp
        with f show ?thesis by simp
      next
        case (Inr defaultFont)
        obtain n2 w2 where fr: "formatRuns h scale (runs tc) 0
          (withDefaultFont tc scale defaultFont ((newNode h TEXT)\<lparr>kind := TEXT\<rparr>)) w1 = (n2, w2)"
          by (rule prod.exhaust)
        from createTextForShape_appends [OF Some nonempty nonblank lf [unfolded Inr] fr] assms
        have "w' = appendChild (Node (layoutTextBox e tc x y width height scale n2) []) w2"
          by simp
        with formatRuns_fields [OF fr] f show ?thesis
          by (simp add: appendChild_def)
      qed
    qed
  qed
qed

lemma createShapeNode_fields:
  "createShapeNode h e width height w = (n0, w0) \<Longrightarrow>
     nodeWidth n0 = width \<and> nodeHeight n0 = height \<and>
     (kind n0 = RECTANGLE \<or> kind n0 = ELLIPSE) \<and> parentChildren w0 = parentChildren w \<and>
     page w0 = page w \<and> selection w0 = selection w \<and> posted w0 = posted w"
  by (auto simp: createShapeNode_def Let_def figmaCreate_def resize_def split: if_splits)

lemma styled_geometry:
  "nodeX (applyRotation e (applyStroke e (applyFill e n))) = nodeX n"
  "nodeY (applyRotation e (applyStroke e (applyFill e n))) = nodeY n"
  "nodeWidth (applyRotation e (applyStroke e (applyFill e n))) = nodeWidth n"
  "nodeHeight (applyRotation e (applyStroke e (applyFill e n))) = nodeHeight n"
  "kind (applyRotation e (applyStroke e (applyFill e n))) = kind n"
  by (simp_all add: applyRotation_def applyStroke_def applyFill_def split: option.splits)

lemma createShape_node:
  assumes "createShape h e x y width height scale w = (w', r)"
  shows "\<exists>n ns. parentChildren w' = parentChildren w @ Node n [] # ns \<and>
           nodeX n = x \<and> nodeY n = y \<and> nodeWidth n = width \<and> nodeHeight n = height \<and>
           (kind n = RECTANGLE \<or> kind n = ELLIPSE)"
    and "page w' = page w \<and> selection w' = selection w \<and> posted w' = posted w"
proof -
  obtain n0 w0 where first: "createShapeNode h e width height w = (n0, w0)"
    by (rule prod.exhaust)
  note n0 = createShapeNode_fields [OF first]
  define n where "n = applyRotation e (applyStroke e (applyFill e (n0\<lparr>nodeX := x, nodeY := y\<rparr>)))"
  define w1 where "w1 = appendChild (Node n []) w0"
  have w1: "parentChildren w1 = parentChildren w @ [Node n []] \<and>
       page w1 = page w \<and> selection w1 = selection w \<and> posted w1 = posted w"
    using n0 by (simp add: w1_def appendChild_def)
  have n: "nodeX n = x \<and> nodeY n = y \<and> nodeWidth n = width \<and> nodeHeight n = height \<and>
           (kind n = RECTANGLE \<or> kind n = ELLIPSE)"
    using n0 by (simp add: n_def styled_geometry)
  have body: "(w', r) =
      (if (case el_text e of Some tc \<Rightarrow> runs tc \<noteq> [] | None \<Rightarrow> False)
       then createTextForShape h e x y width height scale w1 else (w1, Inr ()))"
    using assms first unfolding createShape_def Let_def n_def w1_def
    by simp
  have both: "(\<exists>ns. parentChildren w' = parentChildren w1 @ ns) \<and> page w' = page w1 \<and>
     selection w' = selection w1 \<and> posted w' = posted w1"
  proof (cases "case el_text e of Some tc \<Rightarrow> runs tc \<noteq> [] | None \<Rightarrow> False")
    case True
    with body have "createTextForShape h e x y width height scale w1 = (w', r)" by simp
    from createTextForShape_fields [OF this] show ?thesis .
  next
    case False
    with body show ?thesis by simp
  qed
  then obtain ns where "parentChildren w' = parentChildren w1 @ ns" by blast
  with w1 have "parentChildren w' = parentChildren w @ Node n [] # ns" by simp
  with n show "\<exists>n ns. parentChildren w' = parentChildren w @ Node n [] # ns \<and>
           nodeX n = x \<and> nodeY n = y \<and> nodeWidth n = width \<and> nodeHeight n = height \<and>
           (kind n = RECTANGLE \<or> kind n = ELLIPSE)"
    by blast
  from both w1 show "page w' = page w \<and> selection w' = selection w \<and> posted w' = posted w"
    by simp
qed

subsection \<open>Effective size\<close>

lemma createElement_shape:
  "el_type e = ''shape'' \<Longrightarrow>
     createElement h (Element e ch) imageData scale w =
       createShape h e (elementX e scale) (elementY e scale) (elementWidth e scale)
         (elementHeight e scale) scale w"
  by (simp add: Let_def)

lemma createShape_plain:
  "el_text e = None \<Longrightarrow> el_shapeType e = None \<Longrightarrow>
   createShape h e x y width height scale w =
     (appendChild
        (Node (applyRotation e (applyStroke e (applyFill e
                 ((resize width height ((newNode h RECTANGLE)\<lparr>kind := RECTANGLE\<rparr>))
                    \<lparr>nodeX := x, nodeY := y\<rparr>)))) [])
        (w\<lparr>created := created w @ [RECTANGLE]\<rparr>),
      Inr ())"
  by (simp add: createShape_def createShapeNode_def figmaCreate_def Let_def)

text \<open>
  The width of a node does not take the vertical scale: a ten by ten rectangle authored
  with scales 1 and 2, at fit scale 1, is materialized ten units wide, where the product
  of both scales would give twenty.
\<close>

theorem width_ignores_scaleY_counterexample:
  "nodeWidth (nodeProps (hd (parentChildren
      (fst (createElement interHost (Element tallRect None) Map.empty 1 emptyWorld))))) = 10 \<and>
   nodeWidth (nodeProps (hd (parentChildren
      (fst (createElement interHost (Element tallRect None) Map.empty 1 emptyWorld))))) \<noteq>
     max 1 (el_width tallRect * \<bar>el_scaleX tallRect\<bar> * \<bar>el_scaleY tallRect\<bar> * 1)"
proof -
  have t: "el_type tallRect = ''shape''" "el_text tallRect = None" "el_shapeType tallRect = None"
    by (simp_all add: tallRect_def plainElem_def)
  have w: "elementWidth tallRect 1 = 10"
    by (simp add: elementWidth_def tallRect_def plainElem_def)
  have c: "createElement interHost (Element tallRect None) Map.empty 1 emptyWorld =
      createShape interHost tallRect (elementX tallRect 1) (elementY tallRect 1)
        (elementWidth tallRect 1) (elementHeight tallRect 1) 1 emptyWorld"
    by (rule createElement_shape [OF t(1)])
  have "nodeWidth (nodeProps (hd (parentChildren
      (fst (createElement interHost (Element tallRect None) Map.empty 1 emptyWorld))))) =
      elementWidth tallRect 1"
    unfolding c createShape_plain [OF t(2,3)]
    by (simp add: appendChild_def emptyWorld_def styled_geometry resize_def)
  with w show ?thesis
    by (simp add: tallRect_def plainElem_def)
qed

text \<open>
  C1, amended. The width handed to every materializer is
  \<open>max 1 (rawWidth * |scaleX| * fitScale)\<close> and the height is
  \<open>max 1 (rawHeight * |scaleY| * fitScale)\<close>: each dimension takes its own authored scale,
  multiplied in before the clamp, so both are at least 1 whatever the authored scales.
  A shape's node, the first node its element appends, has exactly this size.
\<close>

theorem element_size_clamped:
  "elementWidth e s = max 1 (el_width e * \<bar>el_scaleX e\<bar> * s) \<and>
   elementHeight e s = max 1 (el_height e * \<bar>el_scaleY e\<bar> * s) \<and>
   1 \<le> elementWidth e s \<and> 1 \<le> elementHeight e s \<and>
   (el_type e = ''shape'' \<longrightarrow>
      (\<exists>n ns. parentChildren (fst (createElement h (Element e ch) imageData s w)) =
                 parentChildren w @ Node n [] # ns \<and>
               nodeWidth n = max 1 (el_width e * \<bar>el_scaleX e\<bar> * s) \<and>
               nodeHeight n = max 1 (el_height e * \<bar>el_scaleY e\<bar> * s) \<and>
               1 \<le> nodeWidth n \<and> 1 \<le> nodeHeight n))"
proof (intro conjI impI)
  show "elementWidth e s = max 1 (el_width e * \<bar>el_scaleX e\<bar> * s)"
    by (simp add: elementWidth_def)
  show "elementHeight e s = max 1 (el_height e * \<bar>el_scaleY e\<bar> * s)"
    by (simp add: elementHeight_def)
  show "1 \<le> elementWidth e s" by (simp add: elementWidth_def)
  show "1 \<le> elementHeight e s" by (simp add: elementHeight_def)
next
  assume shape: "el_type e = ''shape''"
  obtain w' r where c: "createShape h e (elementX e s) (elementY e s) (elementWidth e s)
         (elementHeight e s) s w = (w', r)"
    by (rule prod.exhaust)
  from createShape_node(1) [OF c] obtain n ns where
    "parentChildren w' = parentChildren w @ Node n [] # ns"
    "nodeWidth n = elementWidth e s" "nodeHeight n = elementHeight e s"
    by blast
  then show "\<exists>n ns. parentChildren (fst (createElement h (Element e ch) imageData s w)) =
                 parentChildren w @ Node n [] # ns \<and>
               nodeWidth n = max 1 (el_width e * \<bar>el_scaleX e\<bar> * s) \<and>
               nodeHeight n = max 1 (el_height e * \<bar>el_scaleY e\<bar> * s) \<and>
               1 \<le> nodeWidth n \<and> 1 \<le> nodeHeight n"
    unfolding createElement_shape [OF shape] c
    by (intro exI [of _ n] exI [of _ ns]) (simp add: elementWidth_def elementHeight_def)
qed

theorem element_size_clamped_witness:
  "el_type tallRect = ''shape'' \<and>
   (\<exists>n ns. parentChildren (fst (createElement interHost (Element tallRect None) Map.empty 1 emptyWorld)) =
             Node n [] # ns \<and> nodeWidth n = 10 \<and> nodeHeight n = 20)"
proof -
  have t: "el_type tallRect = ''shape''"
    by (simp add: tallRect_def plainElem_def)
  from t element_size_clamped [where e = tallRect and s = 1 and h = interHost and ch = None
      and imageData = Map.empty and w = emptyWorld]
  have "\<exists>n ns. parentChildren (fst (createElement interHost (Element tallRect None) Map.empty 1 emptyWorld)) =
                 parentChildren emptyWorld @ Node n [] # ns \<and>
               nodeWidth n = max 1 (el_width tallRect * \<bar>el_scaleX tallRect\<bar> * 1) \<and>
               nodeHeight n = max 1 (el_height tallRect * \<bar>el_scaleY tallRect\<bar> * 1) \<and>
               1 \<le> nodeWidth n \<and> 1 \<le> nodeHeight n"
    by (elim conjE) blast
  then obtain n ns where n:
    "parentChildren (fst (createElement interHost (Element tallRect None) Map.empty 1 emptyWorld)) =
       parentChildren emptyWorld @ Node n [] # ns"
    "nodeWidth n = max 1 (el_width tallRect * \<bar>el_scaleX tallRect\<bar> * 1)"
    "nodeHeight n = max 1 (el_height tallRect * \<bar>el_scaleY tallRect\<bar> * 1)"
    by blast
  have v: "max 1 (el_width tallRect * \<bar>el_scaleX tallRect\<bar> * 1) = 10"
    "max 1 (el_height tallRect * \<bar>el_scaleY tallRect\<bar> * 1) = 20"
    "parentChildren emptyWorld = []"
    by (simp_all add: tallRect_def plainElem_def emptyWorld_def)
  have "parentChildren (fst (createElement interHost (Element tallRect None) Map.empty 1 emptyWorld)) =
       Node n [] # ns \<and> nodeWidth n = 10 \<and> nodeHeight n = 20"
    using n unfolding v by simp
  with t show ?thesis by blast
qed

subsection \<open>Images\<close>

lemma placeholderProps_fields:
  "fills (placeholderProps nm x y width height p) = [SOLID placeholderGray]"
  "name (placeholderProps nm x y width height p) = nm"
  "nodeX (placeholderProps nm x y width height p) = x"
  "nodeY (placeholderProps nm x y width height p) = y"
  "nodeWidth (placeholderProps nm x y width height p) = width"
  "nodeHeight (placeholderProps nm x y width height p) = height"
  "kind (placeholderProps nm x y width height p) = kind p"
  by (simp_all add: placeholderProps_def resize_def)

lemma imageRectProps_fields:
  "fills (imageRectProps e hash x y width height p) = [IMAGE hash ''FILL'']"
  "name (imageRectProps e hash x y width height p) = ''Image''"
  by (simp_all add: imageRectProps_def resize_def applyRotation_def)

lemma createPlaceholder_eq:
  "createPlaceholder h nm x y width height w =
     appendChild (Node (placeholderProps nm x y width height ((newNode h RECTANGLE)\<lparr>kind := RECTANGLE\<rparr>)) [])
       (w\<lparr>created := created w @ [RECTANGLE]\<rparr>)"
  by (simp add: createPlaceholder_def figmaCreate_def)

lemma createImage_no_url:
  "el_imageUrl e = None \<or> el_imageUrl e = Some [] \<Longrightarrow>
     createImage h e x y width height imageData w = (w, Inr ())"
  by (auto simp: createImage_def)

lemma createImage_usable:
  assumes "el_imageUrl e = Some url" "url \<noteq> []" "entryHash h imageData url = Some hash"
  shows "createImage h e x y width height imageData w =
        (appendChild
           (Node (imageRectProps e hash x y width height ((newNode h RECTANGLE)\<lparr>kind := RECTANGLE\<rparr>)) [])
           (w\<lparr>created := created w @ [RECTANGLE]\<rparr>), Inr ())"
proof -
  from assms(3) obtain d mime payload bytes where d: "imageData url = Some d" "d \<noteq> []"
    "matchDataUri d = Some (mime, payload)" "base64Decode h payload = Some bytes"
    "imageHash h bytes = Some hash"
    by (auto simp: entryHash_def split: option.splits if_splits)
  then have "createImageRect h e x y width height d w =
        (appendChild
           (Node (imageRectProps e hash x y width height ((newNode h RECTANGLE)\<lparr>kind := RECTANGLE\<rparr>)) [])
           (w\<lparr>created := created w @ [RECTANGLE]\<rparr>), Inr ())"
    by (simp add: createImageRect_def figmaCreate_def)
  with assms(1,2) d(1,2) show ?thesis
    by (simp add: createImage_def)
qed

lemma createImage_missing:
  assumes "el_imageUrl e = Some url" "url \<noteq> []" "imageData url = None \<or> imageData url = Some []"
  shows "createImage h e x y width height imageData w =
      (createPlaceholder h ''Image (failed to load)'' x y width height w, Inr ())"
  using assms by (auto simp: createImage_def)

lemma createImage_unusable:
  assumes "el_imageUrl e = Some url" "url \<noteq> []" "imageData url = Some d" "d \<noteq> []"
    "entryHash h imageData url = None"
  shows "\<exists>err. createImage h e x y width height imageData w =
      (createPlaceholder h ''Image (error)'' x y width height
         (consoleError (FailedToCreateImage err) w), Inr ()) \<and>
      (matchDataUri d = None \<longrightarrow> err = InvalidBase64Data)"
proof -
  define err where "err =
     (case matchDataUri d of
        None \<Rightarrow> InvalidBase64Data
      | Some (mime, payload) \<Rightarrow>
          (case base64Decode h payload of
             None \<Rightarrow> Base64DecodeError
           | Some bytes \<Rightarrow> CreateImageError))"
  have "createImageRect h e x y width height d w = (w, Inl err)"
  proof (cases "matchDataUri d")
    case None
    then show ?thesis by (simp add: createImageRect_def err_def)
  next
    case (Some mp)
    obtain mime payload where mp: "mp = (mime, payload)" by (cases mp)
    show ?thesis
    proof (cases "base64Decode h payload")
      case None
      with Some mp show ?thesis by (simp add: createImageRect_def err_def)
    next
      case (Some bytes)
      with \<open>matchDataUri d = Some mp\<close> mp assms(3,4,5) have "imageHash h bytes = None"
        by (simp add: entryHash_def)
      with Some \<open>matchDataUri d = Some mp\<close> mp show ?thesis
        by (simp add: createImageRect_def err_def)
    qed
  qed
  moreover have "matchDataUri d = None \<longrightarrow> err = InvalidBase64Data"
    by (simp add: err_def)
  ultimately show ?thesis
    using assms(1-4) by (intro exI [of _ err]) (simp add: createImage_def)
qed

lemma createImage_placeholder:
  assumes "el_imageUrl e = Some url" "url \<noteq> []" "\<not> usableEntry h imageData url"
  shows "\<exists>nm w0. createImage h e x y width height imageData w =
          (createPlaceholder h nm x y width height w0, Inr ()) \<and>
          (nm = ''Image (failed to load)'' \<or> nm = ''Image (error)'') \<and>
          parentChildren w0 = parentChildren w \<and> page w0 = page w \<and>
          selection w0 = selection w \<and> posted w0 = posted w"
proof (cases "imageData url = None \<or> imageData url = Some []")
  case True
  from createImage_missing [where imageData = imageData, OF assms(1,2) True] show ?thesis by blast
next
  case False
  then obtain d where d: "imageData url = Some d" "d \<noteq> []" by auto
  from assms(3) have "entryHash h imageData url = None"
    by (simp add: usableEntry_def)
  from createImage_unusable [where imageData = imageData, OF assms(1,2) d this] obtain err where
    "createImage h e x y width height imageData w =
      (createPlaceholder h ''Image (error)'' x y width height
         (consoleError (FailedToCreateImage err) w), Inr ())"
    by blast
  moreover have "parentChildren (consoleError (FailedToCreateImage err) w) = parentChildren w"
    "page (consoleError (FailedToCreateImage err) w) = page w"
    "selection (consoleError (FailedToCreateImage err) w) = selection w"
    "posted (consoleError (FailedToCreateImage err) w) = posted w"
    by (simp_all add: consoleError_def)
  ultimately show ?thesis by blast
qed

lemma createImage_cases:
  "(el_imageUrl e = None \<or> el_imageUrl e = Some []) \<or>
   (\<exists>url hash. el_imageUrl e = Some url \<and> url \<noteq> [] \<and> entryHash h imageData url = Some hash) \<or>
   (\<exists>url. el_imageUrl e = Some url \<and> url \<noteq> [] \<and> \<not> usableEntry h imageData url)"
  by (cases "el_imageUrl e") (auto simp: usableEntry_def)

lemma createImage_returns:
  "snd (createImage h e x y width height imageData w) = Inr ()"
  using createImage_cases [of e h imageData]
proof (elim disjE exE conjE)
  assume "el_imageUrl e = None"
  then show ?thesis by (simp add: createImage_no_url)
next
  assume "el_imageUrl e = Some []"
  then show ?thesis by (simp add: createImage_no_url)
next
  fix url hash
  assume "el_imageUrl e = Some url" "url \<noteq> []" "entryHash h imageData url = Some hash"
  from createImage_usable [OF this] show ?thesis by simp
next
  fix url assume "el_imageUrl e = Some url" "url \<noteq> []" "\<not> usableEntry h imageData url"
  from createImage_placeholder [OF this, of x y width height w] show ?thesis by auto
qed

lemma createImage_fields:
  assumes "createImage h e x y width height imageData w = (w', r)"
  shows "(\<exists>ns. parentChildren w' = parentChildren w @ ns) \<and> page w' = page w \<and>
     selection w' = selection w \<and> posted w' = posted w"
  using createImage_cases [of e h imageData]
proof (elim disjE exE conjE)
  assume "el_imageUrl e = None"
  with assms show ?thesis by (simp add: createImage_no_url)
next
  assume "el_imageUrl e = Some []"
  with assms show ?thesis by (simp add: createImage_no_url)
next
  fix url hash
  assume "el_imageUrl e = Some url" "url \<noteq> []" "entryHash h imageData url = Some hash"
  from createImage_usable [OF this, of x y width height w] assms show ?thesis
    by (auto simp: appendChild_def)
next
  fix url assume "el_imageUrl e = Some url" "url \<noteq> []" "\<not> usableEntry h imageData url"
  from createImage_placeholder [OF this, of x y width height w] assms show ?thesis
    by (auto simp: createPlaceholder_eq appendChild_def)
qed

lemma createElement_image:
  "el_type e = ''image'' \<Longrightarrow>
     createElement h (Element e ch) imageData scale w =
       createImage h e (elementX e scale) (elementY e scale) (elementWidth e scale)
         (elementHeight e scale) imageData w"
  by (simp add: Let_def)



text \<open>
  C10. An image element whose \<open>imageUrl\<close> is absent or empty leaves the host as it was:
  no node is made or appended, and nothing is thrown. The image materializer never throws.
  It appends a gray placeholder exactly when the URL key is not empty and has no usable
  entry in the image data.
\<close>

theorem image_without_url:
  "(el_imageUrl e = None \<or> el_imageUrl e = Some [] \<longrightarrow>
      createImage h e x y width height imageData w = (w, Inr ()) \<and>
      (el_type e = ''image'' \<longrightarrow> createElement h (Element e ch) imageData s w = (w, Inr ()))) \<and>
   snd (createImage h e x y width height imageData w) = Inr () \<and>
   ((\<exists>n. parentChildren (fst (createImage h e x y width height imageData w)) =
            parentChildren w @ [Node n []] \<and> fills n = [SOLID placeholderGray]) =
    (\<exists>url. el_imageUrl e = Some url \<and> url \<noteq> [] \<and> \<not> usableEntry h imageData url))"
proof (intro conjI impI)
  assume a: "el_imageUrl e = None \<or> el_imageUrl e = Some []"
  then show "createImage h e x y width height imageData w = (w, Inr ())"
    by (rule createImage_no_url)
  assume "el_type e = ''image''"
  then show "createElement h (Element e ch) imageData s w = (w, Inr ())"
    unfolding createElement_image [OF \<open>el_type e = ''image''\<close>] createImage_no_url [OF a] by simp
next
  show "snd (createImage h e x y width height imageData w) = Inr ()"
    by (rule createImage_returns)
next
  show "(\<exists>n. parentChildren (fst (createImage h e x y width height imageData w)) =
            parentChildren w @ [Node n []] \<and> fills n = [SOLID placeholderGray]) =
    (\<exists>url. el_imageUrl e = Some url \<and> url \<noteq> [] \<and> \<not> usableEntry h imageData url)"
    using createImage_cases [of e h imageData]
  proof (elim disjE exE conjE)
    assume "el_imageUrl e = None"
    then show ?thesis by (simp add: createImage_no_url)
  next
    assume "el_imageUrl e = Some []"
    then show ?thesis by (simp add: createImage_no_url)
  next
    fix url hash
    assume u: "el_imageUrl e = Some url" "url \<noteq> []" "entryHash h imageData url = Some hash"
    then have "usableEntry h imageData url" by (simp add: usableEntry_def)
    with u show ?thesis
      by (simp add: createImage_usable [OF u] appendChild_def imageRectProps_fields)
  next
    fix url
    assume u: "el_imageUrl e = Some url" "url \<noteq> []" "\<not> usableEntry h imageData url"
    from createImage_placeholder [OF u, of x y width height w] obtain nm w0 where
      "createImage h e x y width height imageData w =
          (createPlaceholder h nm x y width height w0, Inr ())"
      "parentChildren w0 = parentChildren w"
      by blast
    then have "parentChildren (fst (createImage h e x y width height imageData w)) =
        parentChildren w @ [Node (placeholderProps nm x y width height
           ((newNode h RECTANGLE)\<lparr>kind := RECTANGLE\<rparr>)) []]"
      by (simp add: createPlaceholder_eq appendChild_def)
    then have "\<exists>n. parentChildren (fst (createImage h e x y width height imageData w)) =
            parentChildren w @ [Node n []] \<and> fills n = [SOLID placeholderGray]"
      using placeholderProps_fields(1) by blast
    with u show ?thesis by blast
  qed
qed

theorem image_without_url_witness:
  "(el_imageUrl (plainElem ''image'' 0 0 10 10) = None \<or>
    el_imageUrl (plainElem ''image'' 0 0 10 10) = Some []) \<and>
   el_type (plainElem ''image'' 0 0 10 10) = ''image'' \<and>
   createElement bareHost (Element (plainElem ''image'' 0 0 10 10) None) Map.empty 1 emptyWorld =
     (emptyWorld, Inr ())"
proof -
  have a: "el_imageUrl (plainElem ''image'' 0 0 10 10) = None \<or>
    el_imageUrl (plainElem ''image'' 0 0 10 10) = Some []"
    and b: "el_type (plainElem ''image'' 0 0 10 10) = ''image''"
    by (simp_all add: plainElem_def)
  from a b image_without_url [where e = "plainElem ''image'' 0 0 10 10" and h = bareHost
      and ch = None and imageData = Map.empty and s = 1 and w = emptyWorld
      and x = 0 and y = 0 and width = 1 and height = 1]
  have "createElement bareHost (Element (plainElem ''image'' 0 0 10 10) None) Map.empty 1 emptyWorld =
     (emptyWorld, Inr ())"
    by blast
  with a b show ?thesis by blast
qed

subsection \<open>Blank text\<close>

lemma createTextForShape_js_blank:
  "el_text e = Some tc \<Longrightarrow> trim (concat (map run_text (runs tc))) = [] \<Longrightarrow>
     createTextForShape_js h e x y width height w =
       (w\<lparr>created := created w @ [TEXT]\<rparr>, Inr ())"
  by (simp add: createTextForShape_js_def figmaCreate_def Let_def)

text \<open>
  C9. On a shape whose single run is one space, so that the joined text is empty after
  trimming, the compiled variant of \<open>createTextForShape\<close> has called the text node
  constructor before it returns: a text node is created, though none is appended. The
  variant with the fit scale returns before the constructor and leaves the host as it was.
\<close>

theorem compiled_variant_creates_text_node:
  "createTextForShape_js interHost blankTextShape 0 0 100 50 emptyWorld =
     (emptyWorld\<lparr>created := [TEXT]\<rparr>, Inr ()) \<and>
   created (fst (createTextForShape_js interHost blankTextShape 0 0 100 50 emptyWorld)) \<noteq> [] \<and>
   createTextForShape interHost blankTextShape 0 0 100 50 1 emptyWorld = (emptyWorld, Inr ())"
proof -
  have t: "el_text blankTextShape = Some \<lparr>runs = [sampleRun '' ''], alignment = None\<rparr>"
    by (simp add: blankTextShape_def plainElem_def)
  have b: "trim (concat (map run_text (runs \<lparr>runs = [sampleRun '' ''], alignment = None\<rparr>))) = []"
    by (simp add: trim_def isWhiteSpace_def sampleRun_def)
  have "created emptyWorld = []" by (simp add: emptyWorld_def)
  then show ?thesis
    by (simp add: createTextForShape_js_blank [OF t b] createTextForShape_blank [OF t b])
qed

subsection \<open>Tables\<close>

lemma createCell_eq:
  "createCell h f rows cw chh pad scale row col (tcs, w) =
     (tcs @ cellNodes h f rows cw chh pad scale row col,
      w\<lparr>created := created w @ map (\<lambda>n. kind (nodeProps n)) (cellNodes h f rows cw chh pad scale row col)\<rparr>)"
  by (simp add: createCell_def cellNodes_def figmaCreate_def Let_def cellProps_def
        cellTextProps_def resize_def)

lemma fold_createCell:
  "fold (createCell h f rows cw chh pad scale row) cols (tcs, w) =
     (tcs @ concat (map (cellNodes h f rows cw chh pad scale row) cols),
      w\<lparr>created := created w @
          map (\<lambda>n. kind (nodeProps n)) (concat (map (cellNodes h f rows cw chh pad scale row) cols))\<rparr>)"
proof (induction cols arbitrary: tcs w)
  case Nil
  show ?case by simp
next
  case (Cons col cols)
  show ?case
    by (simp add: createCell_eq Cons.IH)
qed

lemma createCells_eq:
  "createCells h f rows rowCount colCount cw chh pad scale (tcs, w) =
     (tcs @ concat (map (\<lambda>row. concat (map (cellNodes h f rows cw chh pad scale row) [0..<colCount]))
                     [0..<rowCount]),
      w\<lparr>created := created w @
          map (\<lambda>n. kind (nodeProps n))
            (concat (map (\<lambda>row. concat (map (cellNodes h f rows cw chh pad scale row) [0..<colCount]))
                     [0..<rowCount]))\<rparr>)"
proof -
  have "fold (\<lambda>row. fold (createCell h f rows cw chh pad scale row) [0..<colCount]) rs (tcs, w) =
     (tcs @ concat (map (\<lambda>row. concat (map (cellNodes h f rows cw chh pad scale row) [0..<colCount])) rs),
      w\<lparr>created := created w @
          map (\<lambda>n. kind (nodeProps n))
            (concat (map (\<lambda>row. concat (map (cellNodes h f rows cw chh pad scale row) [0..<colCount])) rs))\<rparr>)"
    for rs
  proof (induction rs arbitrary: tcs w)
    case Nil
    show ?case by simp
  next
    case (Cons r rs)
    show ?case
      by (simp add: fold_createCell Cons.IH)
  qed
  then show ?thesis
    by (simp add: createCells_def)
qed

lemma rectangles_of_cellNodes:
  "map box (filter isRectangle (cellNodes h f rows cw chh pad scale row col)) =
     [(real col * cw, real row * chh, cw, chh)]"
  by (simp add: cellNodes_def isRectangle_def box_def cellProps_def cellTextProps_def resize_def)

lemma rectangles_of_row:
  "map box (filter isRectangle (concat (map (cellNodes h f rows cw chh pad scale row) cols))) =
     map (\<lambda>col. (real col * cw, real row * chh, cw, chh)) cols"
  by (induction cols) (simp_all add: rectangles_of_cellNodes)

lemma rectangles_of_grid:
  "map box (filter isRectangle
      (concat (map (\<lambda>row. concat (map (cellNodes h f rows cw chh pad scale row) cols)) rs))) =
     concat (map (\<lambda>row. map (\<lambda>col. (real col * cw, real row * chh, cw, chh)) cols) rs)"
  by (induction rs) (simp_all add: rectangles_of_row)

lemma length_gridBoxes: "length (gridBoxes r c width height) = r * c"
  by (simp add: gridBoxes_def length_concat comp_def sum_list_triv)

lemma loadFont_depends_on_log:
  assumes "fontLog w = fontLog v"
  shows "snd (loadFont h fam wt it w) = snd (loadFont h fam wt it v)"
proof -
  obtain tr r where fl:
    "firstLoadable (loadFontOk h) (length (fontLog w)) (ladder h fam wt it) = (tr, r)"
    by (rule prod.exhaust)
  from loadFont_firstLoadable [OF fl] loadFont_firstLoadable [OF fl [unfolded assms]]
  show ?thesis by simp
qed

lemma createTable_empty:
  "el_rows e = None \<or> el_rows e = Some [] \<or> (\<exists>rs. el_rows e = Some ([] # rs)) \<Longrightarrow>
     createTable h e x y width height scale w = (w, Inr ())"
  by (auto simp: createTable_def)

lemma createTable_throws:
  assumes "el_rows e = Some rows" "rows \<noteq> []" "hd rows \<noteq> []"
    and "loadFont h ''Arial'' 400 False (w\<lparr>created := created w @ [FRAME]\<rparr>) = (w1, Inl err)"
  shows "createTable h e x y width height scale w = (w1, Inl err)"
proof -
  from assms(2,3) obtain r rs where "rows = r # rs" "r \<noteq> []"
    by (cases rows) auto
  with assms(1,4) show ?thesis
    by (simp add: createTable_def figmaCreate_def Let_def)
qed

lemma createTable_builds:
  assumes "el_rows e = Some rows" "rows \<noteq> []" "hd rows \<noteq> []"
    and "loadFont h ''Arial'' 400 False (w\<lparr>created := created w @ [FRAME]\<rparr>) = (w1, Inr f)"
  shows "\<exists>w2. createTable h e x y width height scale w =
     (appendChild
        (Node (tableFrameProps x y width height ((newNode h FRAME)\<lparr>kind := FRAME\<rparr>))
           (concat (map (\<lambda>row. concat (map
               (cellNodes h f rows (width / real (length (hd rows))) (height / real (length rows))
                  (4 * scale) scale row)
               [0..<length (hd rows)])) [0..<length rows])))
        w2, Inr ()) \<and>
     parentChildren w2 = parentChildren w1 \<and> page w2 = page w1 \<and> selection w2 = selection w1 \<and>
     posted w2 = posted w1"
proof -
  from assms(2,3) obtain r rs where rows: "rows = r # rs" "r \<noteq> []"
    by (cases rows) auto
  define cells where "cells = concat (map (\<lambda>row. concat (map
               (cellNodes h f rows (width / real (length (hd rows))) (height / real (length rows))
                  (4 * scale) scale row)
               [0..<length (hd rows)])) [0..<length rows])"
  have "createTable h e x y width height scale w =
     (appendChild
        (Node (tableFrameProps x y width height ((newNode h FRAME)\<lparr>kind := FRAME\<rparr>)) cells)
        (w1\<lparr>created := created w1 @ map (\<lambda>n. kind (nodeProps n)) cells\<rparr>), Inr ())"
    using assms(1,4) rows
    unfolding createTable_def figmaCreate_def Let_def cells_def
    by (simp add: createCells_eq)
  then show ?thesis
    unfolding cells_def
    by (intro exI [of _ "w1\<lparr>created := created w1 @ map (\<lambda>n. kind (nodeProps n)) cells\<rparr>"])
      (simp add: cells_def)
qed

lemma createTable_fields:
  assumes "createTable h e x y width height scale w = (w', r)"
  shows "(\<exists>ns. parentChildren w' = parentChildren w @ ns) \<and> page w' = page w \<and>
     selection w' = selection w \<and> posted w' = posted w"
proof (cases "el_rows e = None \<or> el_rows e = Some [] \<or> (\<exists>rs. el_rows e = Some ([] # rs))")
  case True
  from createTable_empty [OF this] assms show ?thesis by simp
next
  case False
  then obtain rows where rows: "el_rows e = Some rows" "rows \<noteq> []" "hd rows \<noteq> []"
    by (cases "el_rows e"; cases "the (el_rows e)") auto
  obtain w1 r1 where lf:
    "loadFont h ''Arial'' 400 False (w\<lparr>created := created w @ [FRAME]\<rparr>) = (w1, r1)"
    by (rule prod.exhaust)
  note f = loadFont_fields [OF lf]
  show ?thesis
  proof (cases r1)
    case (Inl err)
    from createTable_throws [OF rows lf [unfolded Inl]] assms f show ?thesis by simp
  next
    case (Inr fn)
    from createTable_builds [OF rows lf [unfolded Inr], of x y width height scale] assms f
    show ?thesis by (auto simp: appendChild_def)
  qed
qed

lemma twoByThree_rows:
  "el_rows twoByThree = Some [[''a'', ''b'', ''c''], [''d'', [], ''f'']]"
  by (simp add: twoByThree_def plainElem_def)

text \<open>
  On a host without any font the default font of the table does not resolve, the error
  of the last rung leaves the table materializer, and a grid of two rows and three
  columns produces no cell at all.
\<close>

theorem table_without_fonts_counterexample:
  "snd (createTable bareHost twoByThree 0 0 300 100 1 emptyWorld) = Inl (FontLoadError arialRegular) \<and>
   parentChildren (fst (createTable bareHost twoByThree 0 0 300 100 1 emptyWorld)) = []"
proof -
  have "createTable bareHost twoByThree 0 0 300 100 1 emptyWorld =
      ((emptyWorld\<lparr>created := created emptyWorld @ [FRAME]\<rparr>)
         \<lparr>fontLog := fontLog (emptyWorld\<lparr>created := created emptyWorld @ [FRAME]\<rparr>) @
                      ladder bareHost ''Arial'' 400 False\<rparr>,
       Inl (FontLoadError arialRegular))"
    by (rule createTable_throws [OF twoByThree_rows _ _ loadFont_bareHost]) simp_all
  then show ?thesis
    by (simp add: emptyWorld_def)
qed

text \<open>
  C5, amended. For a table whose grid has at least one row and a first row of at least
  one cell. When the table's default font (Arial at weight 400, through the ladder)
  resolves, the table appends one frame at the transformed box; the row count is the
  number of rows of the grid and the column count the length of its first row, whatever
  \<open>rowCount\<close> and \<open>columnCount\<close> say; the frame holds one rectangle per pair of a row and a
  column, in row order, the one of \<open>(row, col)\<close> at \<open>(col * cellWidth, row * cellHeight)\<close> and
  of size \<open>cellWidth\<close> by \<open>cellHeight\<close>, with \<open>cellWidth = boxWidth / columns\<close> and
  \<open>cellHeight = boxHeight / rows\<close>: six rectangles of \<open>boxWidth / 3\<close> by \<open>boxHeight / 2\<close>
  for two rows and three columns. When the font does not resolve, which is when no rung
  of the ladder loads at the moment it is tried, the error of the resolver (the failure of
  Arial Regular) leaves the materializer and nothing is appended.
\<close>

theorem table_grid:
  assumes "el_rows e = Some rows" and "rows \<noteq> []" and "hd rows \<noteq> []"
  shows "(\<forall>f. snd (loadFont h ''Arial'' 400 False w) = Inr f \<longrightarrow>
           (\<exists>frame cells w'.
              createTable h e x y width height scale w = (w', Inr ()) \<and>
              parentChildren w' = parentChildren w @ [Node frame cells] \<and>
              kind frame = FRAME \<and>
              box (Node frame cells) = (x, y, width, height) \<and>
              map box (filter isRectangle cells) =
                gridBoxes (length rows) (length (hd rows)) width height \<and>
              length (filter isRectangle cells) = length rows * length (hd rows))) \<and>
         (\<forall>err. snd (loadFont h ''Arial'' 400 False w) = Inl err \<longrightarrow>
            snd (createTable h e x y width height scale w) = Inl err \<and>
            parentChildren (fst (createTable h e x y width height scale w)) = parentChildren w) \<and>
         ((\<forall>i < length (ladder h ''Arial'' 400 False).
             \<not> loadFontOk h (length (fontLog w) + i) (ladder h ''Arial'' 400 False ! i)) \<longrightarrow>
            snd (createTable h e x y width height scale w) = Inl (FontLoadError arialRegular) \<and>
            parentChildren (fst (createTable h e x y width height scale w)) = parentChildren w)"
proof -
  obtain w1 r1 where lf:
    "loadFont h ''Arial'' 400 False (w\<lparr>created := created w @ [FRAME]\<rparr>) = (w1, r1)"
    by (rule prod.exhaust)
  have same: "snd (loadFont h ''Arial'' 400 False w) = r1"
    using lf
      loadFont_depends_on_log [of "w\<lparr>created := created w @ [FRAME]\<rparr>" w h "''Arial''" 400 False]
    by simp
  have builds: "\<exists>frame cells w'.
              createTable h e x y width height scale w = (w', Inr ()) \<and>
              parentChildren w' = parentChildren w @ [Node frame cells] \<and>
              kind frame = FRAME \<and>
              box (Node frame cells) = (x, y, width, height) \<and>
              map box (filter isRectangle cells) =
                gridBoxes (length rows) (length (hd rows)) width height \<and>
              length (filter isRectangle cells) = length rows * length (hd rows)"
    if font: "snd (loadFont h ''Arial'' 400 False w) = Inr f" for f
  proof -
    have "r1 = Inr f"
      using same font by simp
    note lf = lf [unfolded this]
    define cells where "cells = concat (map (\<lambda>row. concat (map
               (cellNodes h f rows (width / real (length (hd rows))) (height / real (length rows))
                  (4 * scale) scale row)
               [0..<length (hd rows)])) [0..<length rows])"
    define frame where "frame = tableFrameProps x y width height ((newNode h FRAME)\<lparr>kind := FRAME\<rparr>)"
    from createTable_builds [OF assms(1-3) lf, of x y width height scale] obtain w2 where
      c: "createTable h e x y width height scale w = (appendChild (Node frame cells) w2, Inr ())"
      and w2: "parentChildren w2 = parentChildren w1"
      unfolding cells_def frame_def by blast
    have p: "parentChildren (appendChild (Node frame cells) w2) = parentChildren w @ [Node frame cells]"
      using w2 loadFont_fields(1) [OF lf] by (simp add: appendChild_def)
    have k: "kind frame = FRAME" "box (Node frame cells) = (x, y, width, height)"
      by (simp_all add: frame_def tableFrameProps_def resize_def box_def)
    have g: "map box (filter isRectangle cells) =
               gridBoxes (length rows) (length (hd rows)) width height"
      unfolding cells_def gridBoxes_def by (rule rectangles_of_grid)
    have "length (map box (filter isRectangle cells)) = length rows * length (hd rows)"
      unfolding g by (rule length_gridBoxes)
    then have l: "length (filter isRectangle cells) = length rows * length (hd rows)"
      by simp
    from c p k g l show ?thesis by blast
  qed
  have throws: "snd (createTable h e x y width height scale w) = Inl err \<and>
            parentChildren (fst (createTable h e x y width height scale w)) = parentChildren w"
    if font: "snd (loadFont h ''Arial'' 400 False w) = Inl err" for err
  proof -
    have "r1 = Inl err"
      using same font by simp
    note lf = lf [unfolded this]
    from createTable_throws [OF assms(1-3) lf]
    have "createTable h e x y width height scale w = (w1, Inl err)" .
    then show ?thesis
      using loadFont_fields(1) [OF lf] by simp
  qed
  have none: "snd (loadFont h ''Arial'' 400 False w) = Inl (FontLoadError arialRegular)"
    if never: "\<forall>i < length (ladder h ''Arial'' 400 False).
             \<not> loadFontOk h (length (fontLog w) + i) (ladder h ''Arial'' 400 False ! i)"
  proof -
    obtain tr r where fl:
      "firstLoadable (loadFontOk h) (length (fontLog w)) (ladder h ''Arial'' 400 False) = (tr, r)"
      by (rule prod.exhaust)
    have "r = None"
      using firstLoadable_None_iff
        [of "loadFontOk h" "length (fontLog w)" "ladder h ''Arial'' 400 False"] fl never
      by simp
    with loadFont_firstLoadable [OF fl] show ?thesis by simp
  qed
  show ?thesis
  proof (intro conjI allI impI)
    fix f assume "snd (loadFont h ''Arial'' 400 False w) = Inr f"
    then show "\<exists>frame cells w'.
              createTable h e x y width height scale w = (w', Inr ()) \<and>
              parentChildren w' = parentChildren w @ [Node frame cells] \<and>
              kind frame = FRAME \<and>
              box (Node frame cells) = (x, y, width, height) \<and>
              map box (filter isRectangle cells) =
                gridBoxes (length rows) (length (hd rows)) width height \<and>
              length (filter isRectangle cells) = length rows * length (hd rows)"
      by (rule builds)
  next
    fix err assume a: "snd (loadFont h ''Arial'' 400 False w) = Inl err"
    show "snd (createTable h e x y width height scale w) = Inl err"
      using throws [OF a] by simp
    show "parentChildren (fst (createTable h e x y width height scale w)) = parentChildren w"
      using throws [OF a] by simp
  next
    assume a: "\<forall>i < length (ladder h ''Arial'' 400 False).
             \<not> loadFontOk h (length (fontLog w) + i) (ladder h ''Arial'' 400 False ! i)"
    show "snd (createTable h e x y width height scale w) = Inl (FontLoadError arialRegular)"
      using throws [OF none [OF a]] by simp
    show "parentChildren (fst (createTable h e x y width height scale w)) = parentChildren w"
      using throws [OF none [OF a]] by simp
  qed
qed

theorem table_grid_witness:
  "el_rows twoByThree = Some [[''a'', ''b'', ''c''], [''d'', [], ''f'']] \<and>
   el_rowCount twoByThree = Some 5 \<and> el_columnCount twoByThree = Some 7 \<and>
   snd (loadFont interHost ''Arial'' 400 False emptyWorld) = Inr interRegular \<and>
   (\<exists>frame cells w'.
       createTable interHost twoByThree 0 0 300 100 1 emptyWorld = (w', Inr ()) \<and>
       parentChildren w' = [Node frame cells] \<and>
       map box (filter isRectangle cells) =
         [(0, 0, 100, 50), (100, 0, 100, 50), (200, 0, 100, 50),
          (0, 50, 100, 50), (100, 50, 100, 50), (200, 50, 100, 50)] \<and>
       length (filter isRectangle cells) = 6) \<and>
   snd (loadFont bareHost ''Arial'' 400 False emptyWorld) = Inl (FontLoadError arialRegular) \<and>
   snd (createTable bareHost twoByThree 0 0 300 100 1 emptyWorld) =
     Inl (FontLoadError arialRegular) \<and>
   parentChildren (fst (createTable bareHost twoByThree 0 0 300 100 1 emptyWorld)) = []"
proof -
  have lad: "ladder h ''Arial'' 400 False =
     [arialRegular, interRegular, interRegular, \<lparr>family = Named ''Roboto'', style = ''Regular''\<rparr>,
      arialRegular, interRegular, arialRegular]" for h
    by (simp add: ladder_def exactAndMapped_def rung_def FONT_FALLBACKS_def fontFallbackEntries_def
        categoryCandidates_def regexTestCI_def toLower_def fontStyle_of_def interRegular_def
        arialRegular_def)
  have font: "snd (loadFont interHost ''Arial'' 400 False emptyWorld) = Inr interRegular"
    by (simp add: loadFont_runLadder runLadder_def tryInOrder_def lad interHost_def
        interRegular_def arialRegular_def)
  have rows: "[[''a'', ''b'', ''c''], [''d'', [], ''f'']] \<noteq> ([] :: string list list)"
    "hd [[''a'', ''b'', ''c''], [''d'', [], ''f'']] \<noteq> ([] :: string list)"
    by simp_all
  note inst = table_grid [OF twoByThree_rows rows, of _ emptyWorld 0 0 300 100 1]
  from inst [of interHost] font
  obtain frame cells w' where t:
    "createTable interHost twoByThree 0 0 300 100 1 emptyWorld = (w', Inr ())"
    "parentChildren w' = parentChildren emptyWorld @ [Node frame cells]"
    "map box (filter isRectangle cells) =
       gridBoxes (length [[''a'', ''b'', ''c''], [''d'', [], ''f'']])
         (length (hd [[''a'', ''b'', ''c''], [''d'', [], ''f'']])) 300 100"
    "length (filter isRectangle cells) =
       length [[''a'', ''b'', ''c''], [''d'', [], ''f'']] *
       length (hd [[''a'', ''b'', ''c''], [''d'', [], ''f'']])"
    by blast
  have g: "gridBoxes (length [[''a'', ''b'', ''c''], [''d'', [], ''f'']])
         (length (hd [[''a'', ''b'', ''c''], [''d'', [], ''f'']])) 300 100 =
       [(0, 0, 100, 50), (100, 0, 100, 50), (200, 0, 100, 50),
        (0, 50, 100, 50), (100, 50, 100, 50), (200, 50, 100, 50)]"
    by (simp add: gridBoxes_def upt_rec)
  have "createTable interHost twoByThree 0 0 300 100 1 emptyWorld = (w', Inr ()) \<and>
       parentChildren w' = [Node frame cells] \<and>
       map box (filter isRectangle cells) =
         [(0, 0, 100, 50), (100, 0, 100, 50), (200, 0, 100, 50),
          (0, 50, 100, 50), (100, 50, 100, 50), (200, 50, 100, 50)] \<and>
       length (filter isRectangle cells) = 6"
    using t unfolding g by (simp add: emptyWorld_def)
  then have ex: "\<exists>frame cells w'.
       createTable interHost twoByThree 0 0 300 100 1 emptyWorld = (w', Inr ()) \<and>
       parentChildren w' = [Node frame cells] \<and>
       map box (filter isRectangle cells) =
         [(0, 0, 100, 50), (100, 0, 100, 50), (200, 0, 100, 50),
          (0, 50, 100, 50), (100, 50, 100, 50), (200, 50, 100, 50)] \<and>
       length (filter isRectangle cells) = 6"
    by (intro exI [of _ frame] exI [of _ cells] exI [of _ w']) assumption
  have counts: "el_rowCount twoByThree = Some 5" "el_columnCount twoByThree = Some 7"
    by (simp_all add: twoByThree_def plainElem_def)
  have bare: "snd (loadFont bareHost ''Arial'' 400 False emptyWorld) =
      Inl (FontLoadError arialRegular)"
    by (simp add: loadFont_bareHost)
  have never: "\<forall>i < length (ladder bareHost ''Arial'' 400 False).
       \<not> loadFontOk bareHost (length (fontLog emptyWorld) + i)
           (ladder bareHost ''Arial'' 400 False ! i)"
    by (simp add: bareHost_def)
  from inst [of bareHost] never
  have thrown: "snd (createTable bareHost twoByThree 0 0 300 100 1 emptyWorld) =
       Inl (FontLoadError arialRegular)"
    and kept: "parentChildren (fst (createTable bareHost twoByThree 0 0 300 100 1 emptyWorld)) =
       parentChildren emptyWorld"
    by blast+
  have empty: "parentChildren (fst (createTable bareHost twoByThree 0 0 300 100 1 emptyWorld)) = []"
    using kept by (simp add: emptyWorld_def)
  show ?thesis
    by (intro conjI) (fact twoByThree_rows, fact counts(1), fact counts(2), fact font, fact ex,
        fact bare, fact thrown, fact empty)
qed

subsection \<open>Dispatch\<close>

lemma createElement_line:
  "el_type e = ''line'' \<Longrightarrow>
     createElement h (Element e ch) imageData scale w =
       (createLine h e (elementX e scale) (elementY e scale) (elementWidth e scale)
          (elementHeight e scale) w, Inr ())"
  by (simp add: Let_def)

lemma createElement_table:
  "el_type e = ''table'' \<Longrightarrow>
     createElement h (Element e ch) imageData scale w =
       createTable h e (elementX e scale) (elementY e scale) (elementWidth e scale)
         (elementHeight e scale) scale w"
  by (simp add: Let_def)

lemma createElement_group:
  "el_type e = ''group'' \<Longrightarrow>
     createElement h (Element e ch) imageData scale w =
       createGroup h ch (elementX e scale) (elementY e scale) imageData scale w"
  by (simp add: Let_def)

lemma createElement_other:
  "el_type e \<noteq> ''shape'' \<Longrightarrow> el_type e \<noteq> ''image'' \<Longrightarrow> el_type e \<noteq> ''line'' \<Longrightarrow>
   el_type e \<noteq> ''table'' \<Longrightarrow> el_type e \<noteq> ''group'' \<Longrightarrow>
     createElement h (Element e ch) imageData scale w = (w, Inr ())"
  by (simp add: Let_def)

lemma createGroupLoop_Cons:
  "createGroupLoop h (c # rest) x y imageData scale w =
     (case createElement h (childElement x y scale c) imageData scale w of
        (w1, Inl err) \<Rightarrow> (w1, Inl err)
      | (w1, Inr u) \<Rightarrow> createGroupLoop h rest x y imageData scale w1)"
  by (cases c) (simp del: createElement.simps)

lemma createGroup_eq:
  "createGroup h ch x y imageData scale w =
     createGroupLoop h (case ch of Some cs \<Rightarrow> cs | None \<Rightarrow> []) x y imageData scale w"
  by (cases ch) auto

lemma size_childElement: "size (childElement x y scale c) = size c"
  by (cases c) simp

lemma size_child:
  "c \<in> set cs \<Longrightarrow> size c < size (Element e (Some cs))"
  by (induction cs) auto

lemma createLine_page:
  "page (createLine h e x y width height w) = page w \<and>
   selection (createLine h e x y width height w) = selection w \<and>
   posted (createLine h e x y width height w) = posted w"
  by (simp add: createLine_def figmaCreate_def appendChild_def Let_def)

lemma createGroupLoop_page:
  assumes "\<forall>c \<in> set cs. \<forall>w w' r.
             createElement h (childElement x y scale c) imageData scale w = (w', r) \<longrightarrow>
             page w' = page w \<and> selection w' = selection w \<and> posted w' = posted w"
    and "createGroupLoop h cs x y imageData scale w = (w', r)"
  shows "page w' = page w \<and> selection w' = selection w \<and> posted w' = posted w"
  using assms
proof (induction cs arbitrary: w)
  case Nil
  then show ?case by simp
next
  case (Cons c cs)
  from Cons.prems(1) have rest: "\<forall>c \<in> set cs. \<forall>w w' r.
             createElement h (childElement x y scale c) imageData scale w = (w', r) \<longrightarrow>
             page w' = page w \<and> selection w' = selection w \<and> posted w' = posted w"
    by simp
  obtain w1 r1 where c: "createElement h (childElement x y scale c) imageData scale w = (w1, r1)"
    by (rule prod.exhaust)
  have s1: "page w1 = page w \<and> selection w1 = selection w \<and> posted w1 = posted w"
    using Cons.prems(1) c by simp
  show ?case
  proof (cases r1)
    case (Inl err)
    with c Cons.prems(2) s1 show ?thesis
      by (simp add: createGroupLoop_Cons)
  next
    case (Inr u)
    with c Cons.prems(2) have "createGroupLoop h cs x y imageData scale w1 = (w', r)"
      by (simp add: createGroupLoop_Cons)
    from Cons.IH [OF rest this] s1 show ?thesis
      by simp
  qed
qed

lemma createElement_page:
  "createElement h e imageData scale w = (w', r) \<Longrightarrow>
     page w' = page w \<and> selection w' = selection w \<and> posted w' = posted w"
proof (induction e arbitrary: w w' r rule: measure_induct_rule [where f = size])
  case (less e)
  obtain f ch where e: "e = Element f ch" by (cases e)
  note run = less.prems [unfolded e]
  consider (shape) "el_type f = ''shape''" | (image) "el_type f = ''image''"
    | (line) "el_type f = ''line''" | (table) "el_type f = ''table''"
    | (group) "el_type f = ''group''"
    | (other) "el_type f \<noteq> ''shape''" "el_type f \<noteq> ''image''" "el_type f \<noteq> ''line''"
        "el_type f \<noteq> ''table''" "el_type f \<noteq> ''group''"
    by blast
  then show ?case
  proof cases
    case shape
    from run [unfolded createElement_shape [OF shape]] show ?thesis
      by (rule createShape_node(2))
  next
    case image
    from createImage_fields [OF run [unfolded createElement_image [OF image]]] show ?thesis
      by simp
  next
    case line
    from run [unfolded createElement_line [OF line]] createLine_page show ?thesis
      by auto
  next
    case table
    from createTable_fields [OF run [unfolded createElement_table [OF table]]] show ?thesis
      by simp
  next
    case group
    note g = run [unfolded createElement_group [OF group] createGroup_eq]
    show ?thesis
    proof (cases ch)
      case None
      with g show ?thesis by simp
    next
      case (Some cs)
      have "\<forall>c \<in> set cs. \<forall>w w' r.
             createElement h (childElement (elementX f scale) (elementY f scale) scale c)
               imageData scale w = (w', r) \<longrightarrow>
             page w' = page w \<and> selection w' = selection w \<and> posted w' = posted w"
      proof (intro ballI allI impI)
        fix c w w' r
        assume "c \<in> set cs"
          and "createElement h (childElement (elementX f scale) (elementY f scale) scale c)
               imageData scale w = (w', r)"
        then show "page w' = page w \<and> selection w' = selection w \<and> posted w' = posted w"
          using less.IH [of "childElement (elementX f scale) (elementY f scale) scale c" w w' r]
            size_child [of c cs f]
          by (simp add: e Some size_childElement del: createElement.simps)
      qed
      from createGroupLoop_page [OF this] g Some show ?thesis
        by simp
    qed
  next
    case other
    from run [unfolded createElement_other [OF other]] show ?thesis by simp
  qed
qed

lemma createElements_page:
  "page (createElements h es imageData scale w) = page w \<and>
   selection (createElements h es imageData scale w) = selection w \<and>
   posted (createElements h es imageData scale w) = posted w"
proof (induction es arbitrary: w)
  case Nil
  show ?case by simp
next
  case (Cons e es)
  obtain w1 r1 where c: "createElement h e imageData scale w = (w1, r1)"
    by (rule prod.exhaust)
  from createElement_page [OF c] Cons.IH [of w1]
    Cons.IH [of "consoleError (FailedToCreateElement (projl r1)) w1"]
  show ?case
    using c by (cases r1) (simp_all add: consoleError_def del: createElement.simps)
qed

subsection \<open>Failure isolation\<close>

lemma createElements_append:
  "createElements h (pre @ post) imageData scale w =
     createElements h post imageData scale (createElements h pre imageData scale w)"
proof (induction pre arbitrary: w)
  case Nil
  show ?case by simp
next
  case (Cons e pre)
  obtain w1 r1 where c: "createElement h e imageData scale w = (w1, r1)"
    by (rule prod.exhaust)
  show ?case
    using c Cons.IH by (cases r1) (simp_all del: createElement.simps)
qed

lemma createElements_Cons_throws:
  "createElement h e imageData scale w = (w1, Inl err) \<Longrightarrow>
     createElements h (e # post) imageData scale w =
       createElements h post imageData scale (consoleError (FailedToCreateElement err) w1)"
  by (simp del: createElement.simps)

lemma createElements_Cons_returns:
  "createElement h e imageData scale w = (w1, Inr u) \<Longrightarrow>
     createElements h (e # post) imageData scale w = createElements h post imageData scale w1"
  by (simp del: createElement.simps)

lemma createShape_with_text:
  "el_shapeType e = None \<Longrightarrow> el_text e = Some tc \<Longrightarrow> runs tc \<noteq> [] \<Longrightarrow>
   createShape h e x y width height scale w =
     createTextForShape h e x y width height scale
       (appendChild
          (Node (applyRotation e (applyStroke e (applyFill e
                   ((resize width height ((newNode h RECTANGLE)\<lparr>kind := RECTANGLE\<rparr>))
                      \<lparr>nodeX := x, nodeY := y\<rparr>)))) [])
          (w\<lparr>created := created w @ [RECTANGLE]\<rparr>))"
  by (simp add: createShape_def createShapeNode_def figmaCreate_def Let_def)

text \<open>
  C7. When the materialization of an element of a slide throws, the loop logs the error
  to the console and goes on with the elements after it, in order, from the state the
  failed element left: nothing that follows a failing element is skipped.
\<close>

theorem failure_is_isolated:
  assumes "createElement h e imageData scale (createElements h pre imageData scale w) = (w1, Inl err)"
  shows "createElements h (pre @ e # post) imageData scale w =
           createElements h post imageData scale (consoleError (FailedToCreateElement err) w1) \<and>
         console (consoleError (FailedToCreateElement err) w1) =
           console w1 @ [FailedToCreateElement err]"
  using assms
  by (simp add: createElements_append createElements_Cons_throws consoleError_def
        del: createElement.simps createElements.simps)

theorem failure_is_isolated_witness:
  "snd (createElement bareHost (Element helloShape None) Map.empty 1
          (createElements bareHost [] Map.empty 1 emptyWorld)) = Inl (FontLoadError arialRegular) \<and>
   map box (parentChildren
      (createElements bareHost ([] @ Element helloShape None # [plainRect]) Map.empty 1 emptyWorld))
     = [(0, 0, 100, 50), (10, 10, 30, 20)] \<and>
   console (createElements bareHost ([] @ Element helloShape None # [plainRect]) Map.empty 1 emptyWorld)
     = [FailedToCreateElement (FontLoadError arialRegular)]"
proof -
  define shapeNode where "shapeNode =
     Node (applyRotation helloShape (applyStroke helloShape (applyFill helloShape
            ((resize 100 50 ((newNode bareHost RECTANGLE)\<lparr>kind := RECTANGLE\<rparr>))
               \<lparr>nodeX := 0, nodeY := 0\<rparr>)))) []"
  define w0 where "w0 = appendChild shapeNode (emptyWorld\<lparr>created := created emptyWorld @ [RECTANGLE]\<rparr>)"
  define w1 where "w1 = (w0\<lparr>created := created w0 @ [TEXT]\<rparr>)
      \<lparr>fontLog := fontLog (w0\<lparr>created := created w0 @ [TEXT]\<rparr>) @ ladder bareHost ''Helvetica'' 400 False\<rparr>"
  have t: "el_type helloShape = ''shape''" "el_shapeType helloShape = None"
    "el_text helloShape = Some \<lparr>runs = [sampleRun ''Hello''], alignment = None\<rparr>"
    by (simp_all add: helloShape_def plainElem_def)
  have g: "elementX helloShape 1 = 0" "elementY helloShape 1 = 0"
    "elementWidth helloShape 1 = 100" "elementHeight helloShape 1 = 50"
    by (simp_all add: helloShape_def plainElem_def elementX_def elementY_def elementWidth_def
          elementHeight_def)
  have r: "runs \<lparr>runs = [sampleRun ''Hello''], alignment = None\<rparr> \<noteq> []"
    "trim (concat (map run_text (runs \<lparr>runs = [sampleRun ''Hello''], alignment = None\<rparr>))) \<noteq> []"
    by (simp_all add: sampleRun_def trim_def isWhiteSpace_def)
  have lf: "loadFont bareHost
       (run_fontFamily (hd (runs \<lparr>runs = [sampleRun ''Hello''], alignment = None\<rparr>)))
       (run_fontWeight (hd (runs \<lparr>runs = [sampleRun ''Hello''], alignment = None\<rparr>)))
       (run_fontStyle (hd (runs \<lparr>runs = [sampleRun ''Hello''], alignment = None\<rparr>)) = ''italic'')
       (w0\<lparr>created := created w0 @ [TEXT]\<rparr>) = (w1, Inl (FontLoadError arialRegular))"
    unfolding loadFont_bareHost w1_def by (simp add: sampleRun_def)
  have fail: "createElement bareHost (Element helloShape None) Map.empty 1
          (createElements bareHost [] Map.empty 1 emptyWorld) = (w1, Inl (FontLoadError arialRegular))"
    unfolding createElements.simps createElement_shape [OF t(1)] g
      createShape_with_text [OF t(2,3) r(1)]
    using createTextForShape_throws [OF t(3) r lf, of 0 0 100 50 1]
    by (simp add: w0_def shapeNode_def)
  note step = failure_is_isolated [OF fail, of "[plainRect]"]
  have p: "el_type (plainElem ''shape'' 10 10 30 20) = ''shape''"
    "el_text (plainElem ''shape'' 10 10 30 20) = None"
    "el_shapeType (plainElem ''shape'' 10 10 30 20) = None"
    by (simp_all add: plainElem_def)
  have g2: "elementX (plainElem ''shape'' 10 10 30 20) 1 = 10"
    "elementY (plainElem ''shape'' 10 10 30 20) 1 = 10"
    "elementWidth (plainElem ''shape'' 10 10 30 20) 1 = 30"
    "elementHeight (plainElem ''shape'' 10 10 30 20) 1 = 20"
    by (simp_all add: plainElem_def elementX_def elementY_def elementWidth_def elementHeight_def)
  have rect: "createElements bareHost [plainRect] Map.empty 1
                (consoleError (FailedToCreateElement (FontLoadError arialRegular)) w1) =
      appendChild
        (Node (applyRotation (plainElem ''shape'' 10 10 30 20)
                 (applyStroke (plainElem ''shape'' 10 10 30 20)
                    (applyFill (plainElem ''shape'' 10 10 30 20)
                       ((resize 30 20 ((newNode bareHost RECTANGLE)\<lparr>kind := RECTANGLE\<rparr>))
                          \<lparr>nodeX := 10, nodeY := 10\<rparr>)))) [])
        ((consoleError (FailedToCreateElement (FontLoadError arialRegular)) w1)
           \<lparr>created := created (consoleError (FailedToCreateElement (FontLoadError arialRegular)) w1)
                        @ [RECTANGLE]\<rparr>)"
    unfolding plainRect_def
    by (simp add: createElement_shape [OF p(1)] g2 createShape_plain [OF p(2,3)]
          del: createElement.simps)
  have boxes: "map box (parentChildren
      (createElements bareHost ([] @ Element helloShape None # [plainRect]) Map.empty 1 emptyWorld))
     = [(0, 0, 100, 50), (10, 10, 30, 20)]"
    unfolding conjunct1 [OF step] rect
    by (simp add: appendChild_def consoleError_def w1_def w0_def shapeNode_def emptyWorld_def
          box_def styled_geometry resize_def)
  have cons: "console (createElements bareHost ([] @ Element helloShape None # [plainRect])
                 Map.empty 1 emptyWorld) = [FailedToCreateElement (FontLoadError arialRegular)]"
    unfolding conjunct1 [OF step] rect
    by (simp add: appendChild_def consoleError_def w1_def w0_def emptyWorld_def)
  from fail boxes cons show ?thesis
    by (simp del: createElement.simps createElements.simps)
qed

subsection \<open>Groups\<close>











subsection \<open>Groups in double precision\<close>

























section \<open>The orchestrator\<close>

lemma importSlides_Cons:
  "importSlides h imageData scale totalSlides i (slide # rest) createdFrames w =
     (let w3 = createElements h (slide_elements slide) imageData scale
                 (w\<lparr>posted := posted w @ [progressEvent totalSlides i],
                    created := created w @ [FRAME],
                    parentChildren := []\<rparr>);
          frameNode = Node ((resize 1920 1080
                               ((newNode h FRAME)\<lparr>kind := FRAME, name := ''Slide '' @ showNat (i + 1)\<rparr>))
                              \<lparr>nodeX := real i * (1920 + 100), nodeY := 0, fills := [SOLID white]\<rparr>)
                           (parentChildren w3)
      in importSlides h imageData scale totalSlides (Suc i) rest (createdFrames @ [frameNode])
           (w3\<lparr>page := page w3 @ [frameNode]\<rparr>))"
  by (simp add: Let_def figmaCreate_def postMessage_def progressEvent_def
        del: createElements.simps)

lemma importSlides_events:
  "importSlides h imageData scale totalSlides i slides createdFrames w = (createdFrames', w') \<Longrightarrow>
     posted w' = posted w @ map (progressEvent totalSlides) [i..<i + length slides] \<and>
     selection w' = selection w \<and>
     (\<exists>frames. createdFrames' = createdFrames @ frames \<and> page w' = page w @ frames \<and>
        length frames = length slides \<and> list_all isFrame frames)"
proof (induction slides arbitrary: i createdFrames w)
  case Nil
  then show ?case by simp
next
  case (Cons slide rest)
  define w3 where "w3 = createElements h (slide_elements slide) imageData scale
                 (w\<lparr>posted := posted w @ [progressEvent totalSlides i],
                    created := created w @ [FRAME],
                    parentChildren := []\<rparr>)"
  define frameNode where "frameNode =
     Node ((resize 1920 1080
              ((newNode h FRAME)\<lparr>kind := FRAME, name := ''Slide '' @ showNat (i + 1)\<rparr>))
             \<lparr>nodeX := real i * (1920 + 100), nodeY := 0, fills := [SOLID white]\<rparr>)
          (parentChildren w3)"
  have w3: "page w3 = page w" "selection w3 = selection w"
    "posted w3 = posted w @ [progressEvent totalSlides i]"
    unfolding w3_def using createElements_page by simp_all
  have fr: "isFrame frameNode"
    by (simp add: frameNode_def isFrame_def resize_def)
  from Cons.prems have "importSlides h imageData scale totalSlides (Suc i) rest
      (createdFrames @ [frameNode]) (w3\<lparr>page := page w3 @ [frameNode]\<rparr>) = (createdFrames', w')"
    unfolding importSlides_Cons Let_def w3_def frameNode_def .
  from Cons.IH [OF this] obtain frames where ih:
    "posted w' = posted (w3\<lparr>page := page w3 @ [frameNode]\<rparr>) @
        map (progressEvent totalSlides) [Suc i..<Suc i + length rest]"
    "selection w' = selection (w3\<lparr>page := page w3 @ [frameNode]\<rparr>)"
    "createdFrames' = (createdFrames @ [frameNode]) @ frames"
    "page w' = page (w3\<lparr>page := page w3 @ [frameNode]\<rparr>) @ frames"
    "length frames = length rest" "list_all isFrame frames"
    by blast
  have idx: "[i..<i + length (slide # rest)] = i # [Suc i..<Suc i + length rest]"
    using upt_conv_Cons [of i "Suc (i + length rest)"] by simp
  have a: "posted w' = posted w @ map (progressEvent totalSlides) [i..<i + length (slide # rest)]"
    unfolding idx using ih(1) w3(3) by simp
  have b: "selection w' = selection w"
    using ih(2) w3(2) by simp
  have c: "createdFrames' = createdFrames @ (frameNode # frames) \<and>
           page w' = page w @ (frameNode # frames) \<and>
           length (frameNode # frames) = length (slide # rest) \<and>
           list_all isFrame (frameNode # frames)"
    using ih(3-6) w3(1) fr by simp
  from a b c show ?case by blast
qed

lemma percent_rising:
  "sorted_wrt (<) (map percent (map (progressEvent n) [0..<n]))"
proof -
  have "percent (progressEvent n i) < percent (progressEvent n j)" if "i < j" "j < n" for i j
  proof -
    from that have n: "0 < real n" by simp
    from that(1) have "real i * 35 < real j * 35" by simp
    from divide_strict_right_mono [OF this n] show ?thesis
      by (simp add: progressEvent_def)
  qed
  then show ?thesis
    by (simp add: sorted_wrt_iff_nth_less)
qed

text \<open>
  C6. With an empty slide list the orchestrator posts one event, the error, and touches
  nothing else: no frame is created. Otherwise it posts one progress event per slide, in
  slide order, with percents that rise strictly, then one complete event carrying the
  number of slides; it appends one frame per slide to the page and selects these
  frames. A failing element does not change the events, since the loop over the
  elements of a slide catches it.
\<close>

theorem import_events:
  "(pres_slides p = [] \<longrightarrow>
      importPresentation h p imageData w =
        w\<lparr>posted := posted w @ [ErrorMsg ''No slides found in presentation'']\<rparr>) \<and>
   (pres_slides p \<noteq> [] \<longrightarrow>
      posted (importPresentation h p imageData w) =
        posted w @ map (progressEvent (length (pres_slides p))) [0..<length (pres_slides p)] @
          [CompleteMsg (length (pres_slides p))] \<and>
      sorted_wrt (<)
        (map percent (map (progressEvent (length (pres_slides p))) [0..<length (pres_slides p)])) \<and>
      (\<exists>frames. page (importPresentation h p imageData w) = page w @ frames \<and>
         length frames = length (pres_slides p) \<and> list_all isFrame frames \<and>
         selection (importPresentation h p imageData w) = frames))"
proof (intro conjI impI)
  assume "pres_slides p = []"
  then show "importPresentation h p imageData w =
        w\<lparr>posted := posted w @ [ErrorMsg ''No slides found in presentation'']\<rparr>"
    by (simp add: importPresentation_def postMessage_def)
next
  assume ne: "pres_slides p \<noteq> []"
  define w0 where "w0 = w\<lparr>console := console w @
      [OriginalSize (originalWidth p) (originalHeight p) (fitScale p)]\<rparr>"
  obtain cf w1 where run: "importSlides h imageData (fitScale p) (length (pres_slides p)) 0
      (pres_slides p) [] w0 = (cf, w1)"
    by (rule prod.exhaust)
  from importSlides_events [OF run] obtain frames where ev:
    "posted w1 = posted w0 @ map (progressEvent (length (pres_slides p))) [0..<0 + length (pres_slides p)]"
    "selection w1 = selection w0" "cf = [] @ frames" "page w1 = page w0 @ frames"
    "length frames = length (pres_slides p)" "list_all isFrame frames"
    by blast
  have res: "importPresentation h p imageData w =
      postMessage (CompleteMsg (length (pres_slides p))) (w1\<lparr>selection := cf\<rparr>)"
    using ne run by (simp add: importPresentation_def Let_def w0_def)
  show "posted (importPresentation h p imageData w) =
        posted w @ map (progressEvent (length (pres_slides p))) [0..<length (pres_slides p)] @
          [CompleteMsg (length (pres_slides p))]"
    unfolding res using ev(1) by (simp add: postMessage_def w0_def)
  show "sorted_wrt (<)
        (map percent (map (progressEvent (length (pres_slides p))) [0..<length (pres_slides p)]))"
    by (rule percent_rising)
  have "page (importPresentation h p imageData w) = page w @ frames \<and>
         length frames = length (pres_slides p) \<and> list_all isFrame frames \<and>
         selection (importPresentation h p imageData w) = frames"
    unfolding res using ev(3-6) by (simp add: postMessage_def w0_def)
  then show "\<exists>frames. page (importPresentation h p imageData w) = page w @ frames \<and>
         length frames = length (pres_slides p) \<and> list_all isFrame frames \<and>
         selection (importPresentation h p imageData w) = frames"
    by blast
qed

theorem import_events_witness:
  "pres_slides twoSlides \<noteq> [] \<and>
   posted (importPresentation bareHost twoSlides Map.empty emptyWorld) =
     [ProgressMsg 60 ''Creating slide 1 of 2...'',
      ProgressMsg (155 / 2) ''Creating slide 2 of 2...'',
      CompleteMsg 2] \<and>
   length (page (importPresentation bareHost twoSlides Map.empty emptyWorld)) = 2 \<and>
   pres_slides (twoSlides\<lparr>pres_slides := []\<rparr>) = [] \<and>
   posted (importPresentation bareHost (twoSlides\<lparr>pres_slides := []\<rparr>) Map.empty emptyWorld) =
     [ErrorMsg ''No slides found in presentation''] \<and>
   page (importPresentation bareHost (twoSlides\<lparr>pres_slides := []\<rparr>) Map.empty emptyWorld) = []"
proof -
  have ne: "pres_slides twoSlides \<noteq> []" and len: "length (pres_slides twoSlides) = 2"
    by (simp_all add: twoSlides_def)
  note full = import_events [where p = twoSlides and h = bareHost and imageData = Map.empty
      and w = emptyWorld]
  from ne full have
    p1: "posted (importPresentation bareHost twoSlides Map.empty emptyWorld) =
        posted emptyWorld @ map (progressEvent (length (pres_slides twoSlides)))
          [0..<length (pres_slides twoSlides)] @ [CompleteMsg (length (pres_slides twoSlides))]"
    and p2: "\<exists>frames. page (importPresentation bareHost twoSlides Map.empty emptyWorld) =
         page emptyWorld @ frames \<and> length frames = length (pres_slides twoSlides) \<and>
         list_all isFrame frames \<and>
         selection (importPresentation bareHost twoSlides Map.empty emptyWorld) = frames"
    by blast+
  have two: "[0..<2] = [0, Suc 0]"
    by (simp add: upt_rec)
  have ev: "progressEvent 2 0 = ProgressMsg 60 ''Creating slide 1 of 2...''"
    "progressEvent 2 (Suc 0) = ProgressMsg (155 / 2) ''Creating slide 2 of 2...''"
    by (simp_all add: progressEvent_def showNat.simps)
  have a: "posted (importPresentation bareHost twoSlides Map.empty emptyWorld) =
     [ProgressMsg 60 ''Creating slide 1 of 2...'',
      ProgressMsg (155 / 2) ''Creating slide 2 of 2...'',
      CompleteMsg 2]"
    unfolding p1 len two by (simp add: ev emptyWorld_def)
  have b: "length (page (importPresentation bareHost twoSlides Map.empty emptyWorld)) = 2"
    using p2 len by (auto simp: emptyWorld_def)
  have e: "pres_slides (twoSlides\<lparr>pres_slides := []\<rparr>) = []"
    by simp
  from e import_events [where p = "twoSlides\<lparr>pres_slides := []\<rparr>" and h = bareHost
      and imageData = Map.empty and w = emptyWorld]
  have "importPresentation bareHost (twoSlides\<lparr>pres_slides := []\<rparr>) Map.empty emptyWorld =
        emptyWorld\<lparr>posted := posted emptyWorld @ [ErrorMsg ''No slides found in presentation'']\<rparr>"
    by blast
  then have c: "posted (importPresentation bareHost (twoSlides\<lparr>pres_slides := []\<rparr>) Map.empty emptyWorld) =
     [ErrorMsg ''No slides found in presentation'']"
    "page (importPresentation bareHost (twoSlides\<lparr>pres_slides := []\<rparr>) Map.empty emptyWorld) = []"
    by (simp_all add: emptyWorld_def)
  show ?thesis
    by (intro conjI) (fact ne, fact a, fact b, fact e, fact c(1), fact c(2))
qed

end
